theory Spec2Isabelle
  imports Main "HOL-Library.AList"
begin

section \<open>The Product bootstrap of lib/product.js\<close>

text \<open>
  The class \<open>Product\<close> owns a cache store, the resolved plugins and the manifest
  composed from them. Its constructor and its methods \<open>getPlugins\<close>, \<open>getManifest\<close>,
  \<open>getHooks\<close>, \<open>getRegistry\<close>, \<open>getPlugin\<close>, \<open>reinit\<close>, \<open>removePlugin\<close>,
  \<open>addPlugin\<close>, \<open>getComponentInstance\<close> and \<open>runHook\<close> are embedded as functions
  on a state record; every call the class makes to a collaborator (cache store, plugin
  discovery, fetch, removal, the component resolver, the hook runner, the debug logger) is
  appended to a trace, in the order the source makes it. Collaborators whose code is
  outside lib/product.js are fields of an environment record or are modelled from the
  specification, and are marked so. An asynchronous method is embedded as the sequence of
  its steps, a rejected promise as an error result.
\<close>

subsection \<open>JSON data\<close>

datatype json =
    JNull
  | JBool bool
  | JNum int
  | JStr string
  | JArr "json list"
  | JObj "(string \<times> json) list"

text \<open>JavaScript truthiness, as used by \<open>a ? b : c\<close>, \<open>!a\<close> and \<open>a || b\<close>;
  \<open>JNull\<close> also stands for \<open>undefined\<close>.\<close>

fun truthy :: "json \<Rightarrow> bool" where
  "truthy JNull = False"
| "truthy (JBool b) = b"
| "truthy (JNum n) = (n \<noteq> 0)"
| "truthy (JStr s) = (s \<noteq> [])"
| "truthy (JArr xs) = True"
| "truthy (JObj kvs) = True"

text \<open>Reading a value by a path of keys; \<open>None\<close> where the path leaves the data.\<close>

fun jget :: "json \<Rightarrow> string list \<Rightarrow> json option" where
  "jget v [] = Some v"
| "jget (JObj kvs) (k # ks) = (case map_of kvs k of None \<Rightarrow> None | Some v \<Rightarrow> jget v ks)"
| "jget v (k # ks) = None"

fun is_leaf :: "json \<Rightarrow> bool" where
  "is_leaf (JObj kvs) = False"
| "is_leaf v = True"

subsection \<open>Plugins and discovery results\<close>

record plugin =
  pname :: string
  ptype :: string
  pmanifest :: "(string \<times> json) list"

text \<open>A plugin collection is a JavaScript object keyed by plugin name; the list is the
  order of \<open>Object.entries\<close>, which for names that are not array indices is the order
  in which discovery inserted them.\<close>

type_synonym plugins = "(string \<times> plugin) list"

record discovery =
  disabled :: plugins
  enabled :: plugins
  invalids :: plugins

subsection \<open>Config objects\<close>

text \<open>A literal store as passed to \<open>manifest.add(name, {type: 'literal', store})\<close>.\<close>

record store_entry =
  stype :: string
  store :: "(string \<times> json) list"

text \<open>The plain, serialisable content of a Config object, and the live object: the
  content together with the identity the object got when it was constructed.\<close>

record config_plain =
  conf_id :: string
  stores :: "(string \<times> store_entry) list"

record config_object =
  oid :: nat
  plain :: config_plain

text \<open>Modelled from the spec: lib/config.js is missing. \<open>new Config(options)\<close> makes a
  new object around the given plain content (spec 4.1: a manifest reconstructed from
  cache, a fresh wrapper); the first argument is the identity the new object receives.\<close>

definition Config_new :: "nat \<Rightarrow> config_plain \<Rightarrow> config_object" where
  "Config_new n p = \<lparr>oid = n, plain = p\<rparr>"

text \<open>Modelled from the spec: lib/config.js is missing. \<open>add(name, options)\<close> inserts the
  store under the key \<open>name\<close> of the ordered mapping of stores (spec 3, 4.2): a new
  name goes last, an existing name keeps its place and gets the new store.\<close>

definition config_add :: "config_object \<Rightarrow> string \<Rightarrow> store_entry \<Rightarrow> config_object" where
  "config_add c name e = c\<lparr>plain := (plain c)\<lparr>stores := AList.update name e (stores (plain c))\<rparr>\<rparr>"

text \<open>Modelled from the spec: lib/config.js is missing. The stores of a Config form one
  merged tree (spec 3, 4.2): where two stores both hold an object under a key, the two
  objects are merged key by key, and on a key collision at the leaf level the last-added
  store wins. \<open>merge_json a b\<close> lays \<open>b\<close> over \<open>a\<close>; \<open>config_tree\<close> lays the
  stores over one another in the order they were added; a lookup by path reads the merged
  tree, \<open>None\<close> where it has no value.\<close>

fun merge_json :: "json \<Rightarrow> json \<Rightarrow> json" where
  "merge_json (JObj xs) (JObj ys) =
     JObj (map (\<lambda>(k, x). (k, case map_of ys k of None \<Rightarrow> x | Some y \<Rightarrow> merge_json x y)) xs
           @ filter (\<lambda>(k, y). map_of xs k = None) ys)"
| "merge_json a b = b"

definition config_tree :: "config_object \<Rightarrow> json" where
  "config_tree c =
     fold (\<lambda>ne acc. merge_json acc (JObj (store (snd ne)))) (stores (plain c)) (JObj [])"

definition config_get :: "config_object \<Rightarrow> string list \<Rightarrow> json option" where
  "config_get c p = jget (config_tree c) p"

subsection \<open>The cache store\<close>

text \<open>What is handed to and kept by the cache store: a plugin collection, a live Config
  object, the plain form of one, or a list of hooks.\<close>

datatype cval =
    VPlugins plugins
  | VConfig config_object
  | VPlain config_plain
  | VHooks "json list"

text \<open>The constructor picks the backend by the flag \<open>core.caching\<close>
  (\<open>this.config.get('core.caching') ? FileStorage : NoStorage\<close>).\<close>

datatype backend = FileStorage | NoStorage

record cache_store =
  backend :: backend
  entries :: "(string \<times> cval) list"

text \<open>Modelled from the spec: components/file-storage.js and components/no-storage.js are
  missing. The store offers \<open>has\<close>, \<open>get\<close>, \<open>set\<close>, \<open>flush\<close> and is a real
  persistent cache or a no-op (spec 2, 6). The persistent one keeps a Config in its plain
  serialisable form (spec 4.1); the no-op one keeps nothing and has nothing.\<close>

fun serialise :: "cval \<Rightarrow> cval" where
  "serialise (VConfig c) = VPlain (plain c)"
| "serialise v = v"

definition cache_has :: "cache_store \<Rightarrow> string \<Rightarrow> bool" where
  "cache_has c k = (backend c = FileStorage \<and> map_of (entries c) k \<noteq> None)"

definition cache_get :: "cache_store \<Rightarrow> string \<Rightarrow> cval option" where
  "cache_get c k = (if backend c = FileStorage then map_of (entries c) k else None)"

definition cache_set :: "cache_store \<Rightarrow> string \<Rightarrow> cval \<Rightarrow> cache_store" where
  "cache_set c k v =
     (if backend c = FileStorage then c\<lparr>entries := AList.update k (serialise v) (entries c)\<rparr>
      else c)"

definition cache_flush :: "cache_store \<Rightarrow> cache_store" where
  "cache_flush c = c\<lparr>entries := []\<rparr>"

text \<open>What a caller reads out of a cached value. The three keys are only ever written
  with a value of their own kind; any other content reads as empty.\<close>

fun as_plugins :: "cval option \<Rightarrow> plugins" where
  "as_plugins (Some (VPlugins ps)) = ps"
| "as_plugins v = []"

fun as_plain :: "cval option \<Rightarrow> config_plain" where
  "as_plain (Some (VPlain p)) = p"
| "as_plain (Some (VConfig c)) = plain c"
| "as_plain v = \<lparr>conf_id = [], stores = []\<rparr>"

fun as_hooks :: "cval option \<Rightarrow> json list" where
  "as_hooks (Some (VHooks hs)) = hs"
| "as_hooks v = []"

subsection \<open>The config facade\<close>

text \<open>Modelled from the spec: lib/config.js is missing. The facade is a layered key/value
  configuration read by dotted keys (spec 2, 6): \<open>get(key)\<close> gives \<open>undefined\<close> for
  a key that is not set, \<open>get()\<close> the whole configuration, \<open>set\<close> overrides one key
  and \<open>defaults\<close> adds values that only apply where nothing is set.\<close>

record config_facade =
  cf_ident :: string
  cf_managed :: string
  cf_values :: "(string \<times> json) list"

definition cfg_get :: "config_facade \<Rightarrow> string \<Rightarrow> json" where
  "cfg_get c k = (case map_of (cf_values c) k of None \<Rightarrow> JNull | Some v \<Rightarrow> v)"

definition cfg_all :: "config_facade \<Rightarrow> json" where
  "cfg_all c = JObj (cf_values c)"

definition cfg_set :: "config_facade \<Rightarrow> string \<Rightarrow> json \<Rightarrow> config_facade" where
  "cfg_set c k v = c\<lparr>cf_values := AList.update k v (cf_values c)\<rparr>"

definition cfg_defaults :: "config_facade \<Rightarrow> (string \<times> json) list \<Rightarrow> config_facade" where
  "cfg_defaults c d =
     c\<lparr>cf_values := cf_values c @ filter (\<lambda>kv. map_of (cf_values c) (fst kv) = None) d\<rparr>"

subsection \<open>Errors, component instances and calls to collaborators\<close>

text \<open>The two errors \<open>removePlugin\<close> throws are \<open>Error\<close> objects told apart by their
  message: "could not find a plugin called <name>" is \<open>NotFound\<close> with the name asked
  for, "<plugin.name> is a core plugin and cannot be removed" is \<open>Protected\<close> with the
  plugin's name. \<open>TypeError\<close> is the error the language raises when a value that is
  called is not a function, with the property that was called. \<open>Rejected\<close> is a failure
  raised inside a collaborator.\<close>

datatype error = NotFound string | Protected string | TypeError string | Rejected string

record component_instance =
  inst_oid :: nat
  inst_component :: string
  inst_entry :: json
  inst_ctor :: json
  inst_defaults :: json
  inst_init :: json

text \<open>The arguments \<open>getComponentInstance\<close> hands to utils/get-component-instance: the
  component key, the constructor arguments, the config, and the options \<open>cache\<close>,
  \<open>defaults\<close>, \<open>init\<close> and \<open>registry\<close> (the registry view with its id). A cache
  scope is a mutable object of the caller, named here by its address; \<open>None\<close> is
  \<open>undefined\<close>.\<close>

record resolve_call =
  rc_component :: string
  rc_ctor :: json
  rc_config :: config_facade
  rc_cache :: "nat option"
  rc_defaults :: json
  rc_init :: json
  rc_registry_id :: string
  rc_registry :: "json option"

record fetch_opts =
  f_channel :: json
  f_installer :: component_instance
  f_type :: string

text \<open>The Product instance where it is passed by reference.\<close>

datatype this_ref = This

text \<open>The arguments \<open>runHook\<close> hands to utils/run-hook; \<open>hc_hooks = None\<close> is
  \<open>undefined\<close>, the logger is named by its namespace.\<close>

record hook_call =
  hc_event :: string
  hc_data :: json
  hc_hooks :: "json list option"
  hc_context :: "(string \<times> this_ref) list"
  hc_logger :: string

datatype event =
    Debug string
  | ConfigSave string
  | StaticFlush
  | CacheFlush
  | CacheSet string cval
  | Discover json "(string \<times> json) list"
  | PluginFetch string json fetch_opts
  | PluginRemove string
  | ResolveInstance resolve_call
  | RunHook hook_call

subsection \<open>The environment and the state of a Product\<close>

text \<open>The collaborators whose code is not in lib/product.js, over a world \<open>'w\<close> (the
  file system and the network): utils/get-plugins, \<open>Plugin.fetch\<close>, \<open>plugin.remove\<close>,
  utils/parse-package-name (the \<open>name\<close> of its result), utils/run-hook,
  config/product-defaults and utils/generate-id. Discovery reads the world; fetch, removal
  and hooks may change it. \<open>default_scope\<close> is the cache scope
  utils/get-component-instance works with when its caller hands it none, \<open>None\<close> when
  it then works without one: neither lib/product.js nor the specification says which.\<close>

record 'w env =
  get_plugins :: "json \<Rightarrow> (string \<times> json) list \<Rightarrow> 'w \<Rightarrow> discovery"
  plugin_fetch :: "string \<Rightarrow> json \<Rightarrow> fetch_opts \<Rightarrow> 'w \<Rightarrow> (error + plugin) \<times> 'w"
  plugin_remove :: "plugin \<Rightarrow> 'w \<Rightarrow> 'w"
  parse_package_name :: "string \<Rightarrow> string"
  run_hook :: "hook_call \<Rightarrow> 'w \<Rightarrow> (error + json) \<times> 'w"
  product_defaults :: "string \<Rightarrow> (string \<times> json) list"
  generate_id :: "'w \<Rightarrow> string"
  default_scope :: "nat option"

text \<open>The fields of a Product: \<open>config\<close>, \<open>id\<close>, \<open>debug\<close>, the private
  \<open>#_cache\<close>, \<open>plugins\<close>, \<open>manifest\<close>, \<open>hooks\<close> and \<open>_componentsCache\<close>.
  \<open>hooks = None\<close> is a property that was never assigned. \<open>scopes\<close> holds the cache
  scope objects by address, \<open>next_oid\<close> is the identity the next constructed object
  gets, \<open>world\<close> is the outside and \<open>trace\<close> the calls made so far.\<close>

record 'w product =
  config :: config_facade
  pid :: string
  debug_ns :: string
  cache :: cache_store
  plugins :: plugins
  manifest :: config_object
  hooks :: "json list option"
  componentsCache :: nat
  scopes :: "(nat \<times> (string \<times> component_instance) list) list"
  next_oid :: nat
  world :: 'w
  trace :: "event list"

definition log :: "event \<Rightarrow> 'w product \<Rightarrow> 'w product" where
  "log e s = s\<lparr>trace := trace s @ [e]\<rparr>"

text \<open>\<open>this.#_cache.set(key, value)\<close>.\<close>

definition cache_put :: "string \<Rightarrow> cval \<Rightarrow> 'w product \<Rightarrow> 'w product" where
  "cache_put k v s = log (CacheSet k v) (s\<lparr>cache := cache_set (cache s) k v\<rparr>)"

subsection \<open>getPlugins, getManifest, getHooks\<close>

text \<open>An object literal \<open>{...defaults, ...options}\<close>: each option overrides the
  default of its key or is added after the defaults.\<close>

definition spread :: "(string \<times> json) list \<Rightarrow> (string \<times> json) list \<Rightarrow> (string \<times> json) list" where
  "spread defaults options = fold (\<lambda>kv acc. AList.update (fst kv) (snd kv) acc) options defaults"

text \<open>\<open>loadOpts: [this]\<close>: the Product itself, which is no JSON data, is passed as a
  marker.\<close>

definition this_marker :: json where
  "this_marker = JStr ''[this]''"

text \<open>\<open>getPlugins(options = {})\<close>. The third argument of utils/get-plugins
  (\<open>{Plugin, debug}\<close>) holds handles only and is left out.\<close>

definition getPlugins :: "'w env \<Rightarrow> (string \<times> json) list \<Rightarrow> 'w product \<Rightarrow> plugins \<times> 'w product" where
  "getPlugins E options s =
     (if cache_has (cache s) ''plugins.enabled''
      then (as_plugins (cache_get (cache s) ''plugins.enabled''), s)
      else
        let s1 = log (Debug ''running %o plugin discovery...'') s;
            dirs = cfg_get (config s1) ''plugin.dirs'';
            opts = spread [(''channel'', cfg_get (config s1) ''core.release-channel''),
                           (''config'', cfg_all (config s1)),
                           (''loadOpts'', JArr [this_marker]),
                           (''type'', JStr ''global'')] options;
            d = get_plugins E dirs opts (world s1);
            s2 = log (Discover dirs opts) s1;
            s3 = cache_put ''plugins.disabled'' (VPlugins (disabled d)) s2;
            s4 = cache_put ''plugins.enabled'' (VPlugins (enabled d)) s3;
            s5 = cache_put ''plugins.invalid'' (VPlugins (invalids d)) s4
        in (enabled d, s5))"

text \<open>\<open>JSON.parse(JSON.stringify(plugin.manifest))\<close> copies JSON data value for value;
  the four \<open>delete\<close> statements follow.\<close>

definition json_clone :: "(string \<times> json) list \<Rightarrow> (string \<times> json) list" where
  "json_clone m = m"

definition sanitise :: "(string \<times> json) list \<Rightarrow> (string \<times> json) list" where
  "sanitise m =
     AList.delete ''hidden''
       (AList.delete ''enabled''
         (AList.delete ''description''
           (AList.delete ''name'' (json_clone m))))"

text \<open>The body of the loop \<open>for (const [name, plugin] of ...)\<close>, run over a list of
  entries from left to right.\<close>

primrec add_plugins :: "plugins \<Rightarrow> config_object \<Rightarrow> config_object" where
  "add_plugins [] m = m"
| "add_plugins (np # rest) m =
     add_plugins rest
       (config_add m (fst np) \<lparr>stype = ''literal'', store = sanitise (pmanifest (snd np))\<rparr>)"

definition getManifest :: "'w product \<Rightarrow> config_object \<times> 'w product" where
  "getManifest s =
     (if cache_has (cache s) ''manifest''
      then (Config_new (next_oid s) (as_plain (cache_get (cache s) ''manifest'')),
            s\<lparr>next_oid := Suc (next_oid s)\<rparr>)
      else
        let s1 = log (Debug ''running %o manifest construction...'') s;
            m0 = Config_new (next_oid s1) \<lparr>conf_id = ''manifest'', stores = []\<rparr>;
            s2 = s1\<lparr>next_oid := Suc (next_oid s1)\<rparr>;
            m = add_plugins (rev (plugins s2)) m0;
            s3 = cache_put ''manifest'' (VConfig m) s2
        in (m, s3))"

text \<open>Both lines inside the array literal of \<open>getHooks\<close> are comments, so the array is
  \<open>[].flat()\<close>.\<close>

definition getHooks :: "'w product \<Rightarrow> json list \<times> 'w product" where
  "getHooks s =
     (if cache_has (cache s) ''hooks''
      then (as_hooks (cache_get (cache s) ''hooks''), s)
      else
        let s1 = log (Debug ''running %o hooks discovery...'') s;
            hs = concat [];
            s2 = cache_put ''hooks'' (VHooks hs) s1
        in (hs, s2))"

subsection \<open>init and reinit\<close>

text \<open>\<open>#_init\<close> assigns \<open>this.plugins\<close>, then \<open>this.manifest\<close>, and nothing else.\<close>

definition init :: "'w env \<Rightarrow> 'w product \<Rightarrow> 'w product" where
  "init E s =
     (let (ps, s1) = getPlugins E [] s;
          s2 = s1\<lparr>plugins := ps\<rparr>;
          (m, s3) = getManifest s2
      in s3\<lparr>manifest := m\<rparr>)"

text \<open>\<open>#_reint\<close>, which the public \<open>reinit()\<close> calls.\<close>

definition reint :: "'w env \<Rightarrow> 'w product \<Rightarrow> 'w product" where
  "reint E s = init E (log CacheFlush (s\<lparr>cache := cache_flush (cache s)\<rparr>))"

definition reinit :: "'w env \<Rightarrow> 'w product \<Rightarrow> 'w product" where
  "reinit E s = reint E s"

subsection \<open>Looking up and removing a plugin\<close>

text \<open>The plugin collection is an ordinary object, and \<open>this.plugins[key]\<close> is a
  property lookup on it: it finds the entry the collection has under the key, and for a
  key the collection has no entry for, the member every ordinary object inherits from
  \<open>Object.prototype\<close> under that key. These are the names of the inherited members.\<close>

definition object_prototype_members :: "string list" where
  "object_prototype_members =
     [''constructor'', ''__defineGetter__'', ''__defineSetter__'', ''hasOwnProperty'',
      ''__lookupGetter__'', ''__lookupSetter__'', ''isPrototypeOf'', ''propertyIsEnumerable'',
      ''toString'', ''valueOf'', ''__proto__'', ''toLocaleString'']"

text \<open>What the lookup returns: a plugin of the collection, or an inherited member, which
  is a function or, for \<open>__proto__\<close>, the prototype object.\<close>

datatype lookup = Own plugin | Inherited string

text \<open>\<open>getPlugin(name)\<close>: the name is reduced to the bare package name by
  utils/parse-package-name and looked up by \<open>this.plugins[data.name]\<close>; \<open>None\<close> is
  \<open>undefined\<close>.\<close>

definition getPlugin :: "'w env \<Rightarrow> string \<Rightarrow> 'w product \<Rightarrow> lookup option" where
  "getPlugin E name s =
     (case map_of (plugins s) (parse_package_name E name) of
        Some p \<Rightarrow> Some (Own p)
      | None \<Rightarrow>
          if parse_package_name E name \<in> set object_prototype_members
          then Some (Inherited (parse_package_name E name))
          else None)"

text \<open>\<open>removePlugin(name)\<close> throws on \<open>undefined\<close> and on a core plugin before it
  touches anything. An inherited member is an object, so \<open>!plugin\<close> is false; it has no
  property \<open>type\<close>, so the test for \<open>core\<close> is false; it has no property
  \<open>remove\<close>, so \<open>plugin.remove()\<close> throws a TypeError before \<open>#_reint\<close>.\<close>

definition removePlugin :: "'w env \<Rightarrow> string \<Rightarrow> 'w product \<Rightarrow> (error + plugin) \<times> 'w product" where
  "removePlugin E name s =
     (case getPlugin E name s of
        None \<Rightarrow> (Inl (NotFound name), s)
      | Some (Inherited m) \<Rightarrow> (Inl (TypeError ''plugin.remove''), s)
      | Some (Own p) \<Rightarrow>
          if ptype p = ''core'' then (Inl (Protected (pname p)), s)
          else
            let s1 = log (PluginRemove (pname p)) (s\<lparr>world := plugin_remove E p (world s)\<rparr>);
                s2 = reint E s1
            in (Inr p, s2))"

subsection \<open>Component instances\<close>

text \<open>\<open>getRegistry\<close>: \<open>this.manifest.get('registry', {decode: false, encode: false})\<close>.\<close>

definition getRegistry :: "'w product \<Rightarrow> json option" where
  "getRegistry s = config_get (manifest s) [''registry'']"

text \<open>A dotted component key such as \<open>core.plugin-installer\<close> as a path.\<close>

primrec dotted_aux :: "string \<Rightarrow> string \<Rightarrow> string list" where
  "dotted_aux [] acc = [rev acc]"
| "dotted_aux (c # cs) acc =
     (if c = CHR ''.'' then rev acc # dotted_aux cs [] else dotted_aux cs (c # acc))"

definition dotted :: "string \<Rightarrow> string list" where
  "dotted k = dotted_aux k []"

definition scope_of :: "'w product \<Rightarrow> nat \<Rightarrow> (string \<times> component_instance) list" where
  "scope_of s sc = (case map_of (scopes s) sc of None \<Rightarrow> [] | Some m \<Rightarrow> m)"

text \<open>Modelled from the spec: utils/get-component-instance.js is missing. The cache scope
  the resolver works with is the one its caller hands it (spec 4.3); for a caller that
  hands it none the specification names no rule, and the scope is the environment's
  \<open>default_scope\<close>.\<close>

definition effective_scope :: "'w env \<Rightarrow> resolve_call \<Rightarrow> nat option" where
  "effective_scope E a = (case rc_cache a of Some sc \<Rightarrow> Some sc | None \<Rightarrow> default_scope E)"

text \<open>Modelled from the spec: utils/get-component-instance.js is missing. The resolver
  (spec 4.3) is given a cache scope: when the scope already holds an instance for the key
  it returns that one; otherwise it walks the registry for the key, fails with NotFound
  when there is no entry, constructs a new object from the entry, the constructor
  arguments, the defaults and the initialiser option, and stores it in the instance cache
  under the component key. The specification does not say what the resolver does when it
  is given no cache scope; that is left to the environment (\<open>effective_scope\<close>).\<close>

definition get_component_instance ::
    "'w env \<Rightarrow> resolve_call \<Rightarrow> 'w product \<Rightarrow> (error + component_instance) \<times> 'w product" where
  "get_component_instance E a s =
     (case (case effective_scope E a of None \<Rightarrow> None
            | Some sc \<Rightarrow> map_of (scope_of s sc) (rc_component a)) of
        Some inst \<Rightarrow> (Inr inst, s)
      | None \<Rightarrow>
          (case (case rc_registry a of None \<Rightarrow> None
                 | Some r \<Rightarrow> jget r (dotted (rc_component a))) of
             None \<Rightarrow> (Inl (NotFound (rc_component a)), s)
           | Some entry \<Rightarrow>
               let inst = \<lparr>inst_oid = next_oid s, inst_component = rc_component a,
                           inst_entry = entry, inst_ctor = rc_ctor a,
                           inst_defaults = rc_defaults a, inst_init = rc_init a\<rparr>;
                   s1 = s\<lparr>next_oid := Suc (next_oid s)\<rparr>;
                   s2 = (case effective_scope E a of None \<Rightarrow> s1
                         | Some sc \<Rightarrow>
                             s1\<lparr>scopes := AList.update sc
                                   (AList.update (rc_component a) inst (scope_of s1 sc))
                                   (scopes s1)\<rparr>)
               in (Inr inst, s2)))"

text \<open>The options object of \<open>getComponentInstance(component, constructor = {}, opts = {})\<close>:
  \<open>opts.cache\<close>, \<open>opts.defaults\<close>, \<open>opts.init\<close>; a missing property is
  \<open>undefined\<close>. The method passes \<open>cache: opts.cache\<close> as it is; unlike
  \<open>getComponent\<close>, whose parameter is \<open>cache = this._componentsCache\<close>, it puts
  nothing in the place of an omitted scope.\<close>

record instance_opts =
  o_cache :: "nat option"
  o_defaults :: json
  o_init :: json

definition no_opts :: instance_opts where
  "no_opts = \<lparr>o_cache = None, o_defaults = JNull, o_init = JNull\<rparr>"

definition resolve_args :: "string \<Rightarrow> json \<Rightarrow> instance_opts \<Rightarrow> 'w product \<Rightarrow> resolve_call" where
  "resolve_args component ctor opts s =
     \<lparr>rc_component = component, rc_ctor = ctor, rc_config = config s,
      rc_cache = o_cache opts,
      rc_defaults = o_defaults opts, rc_init = o_init opts,
      rc_registry_id = pid s @ ''-class-cache'', rc_registry = getRegistry s\<rparr>"

definition getComponentInstance ::
    "'w env \<Rightarrow> string \<Rightarrow> json \<Rightarrow> instance_opts \<Rightarrow> 'w product
      \<Rightarrow> (error + component_instance) \<times> 'w product" where
  "getComponentInstance E component ctor opts s =
     (let a = resolve_args component ctor opts s
      in get_component_instance E a (log (ResolveInstance a) s))"

subsection \<open>addPlugin and runHook\<close>

text \<open>\<open>addPlugin(name, dest = this.config.get('plugin.global-install-dir'))\<close>; \<open>None\<close>
  is an omitted \<open>dest\<close>. The installer is resolved while the arguments of
  \<open>Plugin.fetch\<close> are evaluated, so a failure there is raised before the fetch.\<close>

definition addPlugin ::
    "'w env \<Rightarrow> string \<Rightarrow> json option \<Rightarrow> 'w product \<Rightarrow> (error + plugin) \<times> 'w product" where
  "addPlugin E name dest s =
     (let dest' = (case dest of None \<Rightarrow> cfg_get (config s) ''plugin.global-install-dir''
                   | Some d \<Rightarrow> d);
          channel = cfg_get (config s) ''core.release-channel'';
          (ri, s1) = getComponentInstance E ''core.plugin-installer'' (JObj []) no_opts s
      in case ri of
           Inl e \<Rightarrow> (Inl e, s1)
         | Inr installer \<Rightarrow>
             (let fo = \<lparr>f_channel = channel, f_installer = installer, f_type = ''global''\<rparr>;
                  (rf, w') = plugin_fetch E name dest' fo (world s1);
                  s2 = log (PluginFetch name dest' fo) (s1\<lparr>world := w'\<rparr>)
              in (case rf of
                    Inl e \<Rightarrow> (Inl e, s2)
                  | Inr p \<Rightarrow> (Inr p, reint E s2))))"

text \<open>\<open>runHook(event, data)\<close>: the context \<open>{[this.id]: this, product: this}\<close> has
  one key when the id is \<open>product\<close>.\<close>

definition hook_args :: "string \<Rightarrow> json \<Rightarrow> 'w product \<Rightarrow> hook_call" where
  "hook_args event data s =
     \<lparr>hc_event = event, hc_data = data, hc_hooks = hooks s,
      hc_context = AList.update ''product'' This [(pid s, This)],
      hc_logger = debug_ns s\<rparr>"

definition runHook ::
    "'w env \<Rightarrow> string \<Rightarrow> json \<Rightarrow> 'w product \<Rightarrow> (error + json) \<times> 'w product" where
  "runHook E event data s =
     (let a = hook_args event data s;
          (r, w') = run_hook E a (world s)
      in (r, log (RunHook a) (s\<lparr>world := w'\<rparr>)))"

subsection \<open>The constructor\<close>

text \<open>\<open>new Product(config, debug)\<close> for a supplied config. \<open>disk\<close> is what the
  directory \<open>system.syscache-dir\<close> holds, \<open>None\<close> when it does not exist. The fields
  \<open>plugins\<close> and \<open>manifest\<close> are assigned by \<open>init\<close> before anything reads them;
  \<open>hooks\<close> is assigned nowhere.\<close>

definition construct ::
    "'w env \<Rightarrow> config_facade \<Rightarrow> string \<Rightarrow> (string \<times> cval) list option \<Rightarrow> 'w \<Rightarrow> 'w product" where
  "construct E cfg dbg disk w =
     (let ident = (if cf_ident cfg = [] then ''lando'' else cf_ident cfg);
          c1 = cfg_defaults cfg (product_defaults E ident);
          fresh = (\<not> truthy (cfg_get c1 (cf_managed c1 @ '':system.instance'')));
          c2 = (if fresh then cfg_set c1 ''system.instance'' (JStr (generate_id E w)) else c1);
          t1 = (if fresh then [ConfigSave (generate_id E w),
                               Debug ''could not locate instance id, setting to %o'']
                else []);
          caching = truthy (cfg_get c2 ''core.caching'');
          st = (if caching
                then \<lparr>backend = FileStorage,
                      entries = (case disk of None \<Rightarrow> [] | Some es \<Rightarrow> es)\<rparr>
                else \<lparr>backend = NoStorage, entries = []\<rparr>);
          t2 = (if \<not> caching \<and> disk \<noteq> None then [StaticFlush] else [])
      in init E
           \<lparr>config = c2, pid = ident, debug_ns = dbg, cache = st, plugins = [],
            manifest = Config_new 0 \<lparr>conf_id = [], stores = []\<rparr>, hooks = None,
            componentsCache = 0, scopes = [(0, [])], next_oid = 0, world = w,
            trace = t1 @ t2\<rparr>)"

subsection \<open>Sequences of public calls\<close>

text \<open>The public operations a caller can invoke on a Product, and the state after a
  sequence of them, whatever each call returned.\<close>

datatype call =
    CGetPlugins "(string \<times> json) list"
  | CGetManifest
  | CGetHooks
  | CReinit
  | CRemovePlugin string
  | CAddPlugin string "json option"
  | CRunHook string json
  | CGetComponentInstance string json instance_opts

fun step :: "'w env \<Rightarrow> call \<Rightarrow> 'w product \<Rightarrow> 'w product" where
  "step E (CGetPlugins options) s = snd (getPlugins E options s)"
| "step E CGetManifest s = snd (getManifest s)"
| "step E CGetHooks s = snd (getHooks s)"
| "step E CReinit s = reinit E s"
| "step E (CRemovePlugin name) s = snd (removePlugin E name s)"
| "step E (CAddPlugin name dest) s = snd (addPlugin E name dest s)"
| "step E (CRunHook event data) s = snd (runHook E event data s)"
| "step E (CGetComponentInstance component ctor opts) s =
     snd (getComponentInstance E component ctor opts s)"

definition run :: "'w env \<Rightarrow> call list \<Rightarrow> 'w product \<Rightarrow> 'w product" where
  "run E calls s = fold (step E) calls s"

text \<open>The calls that end in \<open>#_reint\<close> when they succeed, and so flush the cache.\<close>

fun flushes :: "call \<Rightarrow> bool" where
  "flushes CReinit = True"
| "flushes (CRemovePlugin name) = True"
| "flushes (CAddPlugin name dest) = True"
| "flushes c = False"

subsection \<open>Notions used in the statements\<close>

text \<open>The entry the loop of \<open>getManifest\<close> adds for one plugin, and the content of the
  manifest it builds from a plugin collection.\<close>

definition literal_of :: "string \<times> plugin \<Rightarrow> string \<times> store_entry" where
  "literal_of np = (fst np, \<lparr>stype = ''literal'', store = sanitise (pmanifest (snd np))\<rparr>)"

definition composed :: "plugins \<Rightarrow> config_plain" where
  "composed ps =
     plain (add_plugins (rev ps) (Config_new 0 \<lparr>conf_id = ''manifest'', stores = []\<rparr>))"

definition stripped_fields :: "string list" where
  "stripped_fields = [''name'', ''description'', ''enabled'', ''hidden'']"

text \<open>The options \<open>getPlugins\<close> passes to discovery and what discovery returns for
  them in the current world.\<close>

definition discovery_options :: "'w product \<Rightarrow> (string \<times> json) list \<Rightarrow> (string \<times> json) list" where
  "discovery_options s options =
     spread [(''channel'', cfg_get (config s) ''core.release-channel''),
             (''config'', cfg_all (config s)),
             (''loadOpts'', JArr [this_marker]),
             (''type'', JStr ''global'')] options"

definition discovered :: "'w env \<Rightarrow> 'w product \<Rightarrow> (string \<times> json) list \<Rightarrow> discovery" where
  "discovered E s options =
     get_plugins E (cfg_get (config s) ''plugin.dirs'') (discovery_options s options) (world s)"

fun is_Discover :: "event \<Rightarrow> bool" where
  "is_Discover (Discover dirs opts) = True"
| "is_Discover e = False"

definition discoveries :: "event list \<Rightarrow> nat" where
  "discoveries t = length (filter is_Discover t)"

text \<open>The events \<open>#_reint\<close> appends to the trace when discovery returns \<open>d\<close>, the
  state has the fields of \<open>s\<close> and the built manifest gets the identity \<open>n\<close>.\<close>

definition reint_events :: "'w product \<Rightarrow> discovery \<Rightarrow> nat \<Rightarrow> event list" where
  "reint_events s d n =
     [CacheFlush,
      Debug ''running %o plugin discovery...'',
      Discover (cfg_get (config s) ''plugin.dirs'') (discovery_options s []),
      CacheSet ''plugins.disabled'' (VPlugins (disabled d)),
      CacheSet ''plugins.enabled'' (VPlugins (enabled d)),
      CacheSet ''plugins.invalid'' (VPlugins (invalids d)),
      Debug ''running %o manifest construction...'',
      CacheSet ''manifest'' (VConfig (Config_new n (composed (enabled d))))]"

text \<open>Plugins and manifest are of one generation: the manifest is the one composed from
  \<open>this.plugins\<close>, and so is what a retaining cache holds for both.\<close>

definition coherent :: "'w product \<Rightarrow> bool" where
  "coherent s \<longleftrightarrow>
     plain (manifest s) = composed (plugins s) \<and>
     (backend (cache s) = FileStorage \<longrightarrow>
        cache_get (cache s) ''plugins.enabled'' = Some (VPlugins (plugins s)) \<and>
        cache_get (cache s) ''manifest'' = Some (VPlain (composed (plugins s))))"

text \<open>The entry \<open>hooks\<close>, where the cache has one, is the list \<open>getHooks\<close> wrote.\<close>

definition hooks_clean :: "'w product \<Rightarrow> bool" where
  "hooks_clean s \<longleftrightarrow>
     (cache_has (cache s) ''hooks'' \<longrightarrow> cache_get (cache s) ''hooks'' = Some (VHooks []))"

subsection \<open>An example installation\<close>

definition plugin_a :: plugin where
  "plugin_a = \<lparr>pname = ''a'', ptype = ''core'',
     pmanifest = [(''name'', JStr ''a''), (''tag'', JStr ''from-a''),
                  (''registry'',
                   JObj [(''core'', JObj [(''plugin-installer'', JStr ''installer'')])])]\<rparr>"

definition plugin_b :: plugin where
  "plugin_b = \<lparr>pname = ''b'', ptype = ''global'',
     pmanifest = [(''name'', JStr ''b''), (''tag'', JStr ''from-b'')]\<rparr>"

text \<open>A world that is the list of installed plugins: discovery enables all of them,
  removal deletes by name, a fetch installs a plugin unless its name is \<open>broken\<close>;
  the resolver has no cache scope of its own.\<close>

definition demo_env :: "plugins env" where
  "demo_env =
     \<lparr>get_plugins = (\<lambda>dirs opts w. \<lparr>disabled = [], enabled = w, invalids = []\<rparr>),
      plugin_fetch = (\<lambda>name dest fo w.
         if name = ''broken'' then (Inl (Rejected ''fetch failed''), w)
         else (Inr \<lparr>pname = name, ptype = f_type fo, pmanifest = [(''name'', JStr name)]\<rparr>,
               w @ [(name, \<lparr>pname = name, ptype = f_type fo,
                             pmanifest = [(''name'', JStr name)]\<rparr>)])),
      plugin_remove = (\<lambda>p w. AList.delete (pname p) w),
      parse_package_name = (\<lambda>n. n),
      run_hook = (\<lambda>a w. (Inr JNull, w)),
      product_defaults = (\<lambda>i. [(''core.release-channel'', JStr ''stable'')]),
      generate_id = (\<lambda>w. ''i1''),
      default_scope = None\<rparr>"

definition demo_config :: "bool \<Rightarrow> config_facade" where
  "demo_config caching =
     \<lparr>cf_ident = ''lando'', cf_managed = ''managed'',
      cf_values = [(''core.caching'', JBool caching),
                   (''managed:system.instance'', JStr ''i1'')]\<rparr>"

text \<open>The Product constructed over that world, with caching on or off and no cache
  directory yet.\<close>

definition demo_product :: "bool \<Rightarrow> plugins product" where
  "demo_product caching =
     construct demo_env (demo_config caching) ''@lando/core:product'' None
       [(''a'', plugin_a), (''b'', plugin_b)]"

text \<open>The installer instance the example registry resolves to, with identity \<open>n\<close>.\<close>

definition demo_installer :: "nat \<Rightarrow> component_instance" where
  "demo_installer n =
     \<lparr>inst_oid = n, inst_component = ''core.plugin-installer'',
      inst_entry = JStr ''installer'', inst_ctor = JObj [], inst_defaults = JNull,
      inst_init = JNull\<rparr>"

section \<open>Properties\<close>

subsection \<open>The merged tree of a Config\<close>

lemma map_of_map_key:
  "map_of (map (\<lambda>(k, x). (k, f k x)) xs) k = map_option (f k) (map_of xs k)"
  by (induction xs) auto

lemma map_of_filter_key:
  "P k \<Longrightarrow> map_of (filter (\<lambda>(k, y). P k) ys) k = map_of ys k"
  by (induction ys) auto

lemma map_of_merged:
  "map_of (map (\<lambda>(k, x). (k, f k x)) xs @ filter (\<lambda>(k, y). map_of xs k = None) ys) k =
     (case map_of xs k of Some x \<Rightarrow> Some (f k x) | None \<Rightarrow> map_of ys k)"
  by (simp add: map_of_map_key map_of_filter_key map_add_def split: option.splits)

lemma merge_json_leaf: "is_leaf b \<Longrightarrow> merge_json a b = b"
  by (cases a; cases b) simp_all

lemma jget_merge_leaf:
  "jget b p = Some v \<Longrightarrow> is_leaf v \<Longrightarrow> jget (merge_json a b) p = Some v"
proof (induction p arbitrary: a b)
  case Nil
  then show ?case by (simp add: merge_json_leaf)
next
  case (Cons k ks)
  from Cons.prems(1) obtain ys u where b: "b = JObj ys" and u: "map_of ys k = Some u"
    and v: "jget u ks = Some v"
    by (cases b) (auto split: option.splits)
  show ?case
  proof (cases a)
    case (JObj xs)
    show ?thesis
    proof (cases "map_of xs k")
      case None
      with JObj b u v show ?thesis by (simp add: map_of_merged del: map_of_append)
    next
      case (Some x)
      have "jget (merge_json x u) ks = Some v" using v Cons.prems(2) by (rule Cons.IH)
      with JObj b u Some show ?thesis by (simp add: map_of_merged del: map_of_append)
    qed
  qed (use b Cons.prems(1) in simp_all)
qed

lemma config_get_last_leaf:
  assumes "stores (plain c) = rest @ [ne]"
    and "jget (JObj (store (snd ne))) p = Some v" and "is_leaf v"
  shows "config_get c p = Some v"
  using assms by (simp add: config_get_def config_tree_def jget_merge_leaf)

lemma config_get_empty: "stores (plain c) = [] \<Longrightarrow> config_get c (k # ks) = None"
  by (simp add: config_get_def config_tree_def)

subsection \<open>Composition of the manifest\<close>

lemma update_fresh_key: "k \<notin> fst ` set al \<Longrightarrow> AList.update k v al = al @ [(k, v)]"
  by (induction al) auto

lemma set_update_subset: "set (AList.update k v al) \<subseteq> insert (k, v) (set al)"
  by (induction al) auto

lemma oid_add_plugins [simp]: "oid (add_plugins ps m) = oid m"
  by (induction ps arbitrary: m) (simp_all add: config_add_def)

lemma conf_id_add_plugins [simp]: "conf_id (plain (add_plugins ps m)) = conf_id (plain m)"
  by (induction ps arbitrary: m) (simp_all add: config_add_def)

lemma stores_add_plugins_subset:
  "set (stores (plain (add_plugins ps m))) \<subseteq> set (stores (plain m)) \<union> literal_of ` set ps"
proof (induction ps arbitrary: m)
  case Nil
  then show ?case by simp
next
  case (Cons np ps)
  have "set (stores (plain (config_add m (fst np)
                \<lparr>stype = ''literal'', store = sanitise (pmanifest (snd np))\<rparr>)))
        \<subseteq> insert (literal_of np) (set (stores (plain m)))"
    using set_update_subset by (simp add: config_add_def literal_of_def)
  with Cons.IH show ?case by fastforce
qed

lemma stores_add_plugins_distinct:
  "distinct (map fst ps) \<Longrightarrow> fst ` set ps \<inter> fst ` set (stores (plain m)) = {} \<Longrightarrow>
   stores (plain (add_plugins ps m)) = stores (plain m) @ map literal_of ps"
proof (induction ps arbitrary: m)
  case Nil
  then show ?case by simp
next
  case (Cons np ps)
  let ?m' = "config_add m (fst np)
               \<lparr>stype = ''literal'', store = sanitise (pmanifest (snd np))\<rparr>"
  from Cons.prems have fresh: "fst np \<notin> fst ` set (stores (plain m))" by auto
  then have st: "stores (plain ?m') = stores (plain m) @ [literal_of np]"
    by (simp add: config_add_def update_fresh_key literal_of_def)
  from Cons.prems have "distinct (map fst ps)"
    and "fst ` set ps \<inter> fst ` set (stores (plain ?m')) = {}"
    by (auto simp: st literal_of_def)
  then have "stores (plain (add_plugins ps ?m')) = stores (plain ?m') @ map literal_of ps"
    by (rule Cons.IH)
  then show ?case by (simp add: st)
qed

lemma sanitise_stripped: "k \<in> set stripped_fields \<Longrightarrow> map_of (sanitise m) k = None"
  by (auto simp: sanitise_def AList.delete_conv' stripped_fields_def)

lemma sanitise_kept: "k \<notin> set stripped_fields \<Longrightarrow> map_of (sanitise m) k = map_of m k"
  by (simp add: sanitise_def json_clone_def AList.delete_conv' stripped_fields_def)

lemma getManifest_miss:
  "\<not> cache_has (cache s) ''manifest'' \<Longrightarrow>
   getManifest s =
     (add_plugins (rev (plugins s))
        (Config_new (next_oid s) \<lparr>conf_id = ''manifest'', stores = []\<rparr>),
      cache_put ''manifest''
        (VConfig (add_plugins (rev (plugins s))
           (Config_new (next_oid s) \<lparr>conf_id = ''manifest'', stores = []\<rparr>)))
        ((log (Debug ''running %o manifest construction...'') s)
           \<lparr>next_oid := Suc (next_oid s)\<rparr>))"
  by (simp add: getManifest_def Let_def log_def)

lemma getManifest_hit:
  "cache_has (cache s) ''manifest'' \<Longrightarrow>
   getManifest s = (Config_new (next_oid s) (as_plain (cache_get (cache s) ''manifest'')),
                    s\<lparr>next_oid := Suc (next_oid s)\<rparr>)"
  by (simp add: getManifest_def)

subsection \<open>Laws of the cache store\<close>

lemma backend_cache_set [simp]: "backend (cache_set c k v) = backend c"
  by (simp add: cache_set_def)

lemma backend_cache_flush [simp]: "backend (cache_flush c) = backend c"
  by (simp add: cache_flush_def)

lemma cache_has_flush [simp]: "\<not> cache_has (cache_flush c) k"
  by (simp add: cache_has_def cache_flush_def)

lemma cache_has_set:
  "cache_has (cache_set c k v) k' \<longleftrightarrow> backend c = FileStorage \<and> (k' = k \<or> cache_has c k')"
  by (auto simp: cache_has_def cache_set_def AList.update_conv')

lemma cache_get_set:
  "cache_get (cache_set c k v) k' =
     (if backend c = FileStorage then (if k' = k then Some (serialise v) else cache_get c k')
      else None)"
  by (simp add: cache_get_def cache_set_def AList.update_conv')

lemma cache_has_get: "cache_has c k \<longleftrightarrow> cache_get c k \<noteq> None"
  by (simp add: cache_has_def cache_get_def)

lemma no_storage_has [simp]: "backend c = NoStorage \<Longrightarrow> \<not> cache_has c k"
  by (simp add: cache_has_def)

lemma no_storage_set [simp]: "backend c = NoStorage \<Longrightarrow> cache_set c k v = c"
  by (simp add: cache_set_def)

subsection \<open>Fields after log and cache_put\<close>

lemma log_fields [simp]:
  "config (log e s) = config s" "pid (log e s) = pid s" "debug_ns (log e s) = debug_ns s"
  "cache (log e s) = cache s" "plugins (log e s) = plugins s" "manifest (log e s) = manifest s"
  "hooks (log e s) = hooks s" "componentsCache (log e s) = componentsCache s"
  "scopes (log e s) = scopes s" "next_oid (log e s) = next_oid s" "world (log e s) = world s"
  "trace (log e s) = trace s @ [e]"
  by (simp_all add: log_def)

lemma cache_put_fields [simp]:
  "config (cache_put k v s) = config s" "pid (cache_put k v s) = pid s"
  "debug_ns (cache_put k v s) = debug_ns s"
  "cache (cache_put k v s) = cache_set (cache s) k v"
  "plugins (cache_put k v s) = plugins s" "manifest (cache_put k v s) = manifest s"
  "hooks (cache_put k v s) = hooks s" "componentsCache (cache_put k v s) = componentsCache s"
  "scopes (cache_put k v s) = scopes s" "next_oid (cache_put k v s) = next_oid s"
  "world (cache_put k v s) = world s"
  "trace (cache_put k v s) = trace s @ [CacheSet k v]"
  by (simp_all add: cache_put_def)

lemma discovery_options_cong [simp]:
  "discovery_options (log e s) os = discovery_options s os"
  "discovery_options (s\<lparr>cache := c\<rparr>) os = discovery_options s os"
  "discovery_options (s\<lparr>plugins := ps\<rparr>) os = discovery_options s os"
  "discovery_options (s\<lparr>manifest := m\<rparr>) os = discovery_options s os"
  "discovery_options (s\<lparr>next_oid := n\<rparr>) os = discovery_options s os"
  by (simp_all add: discovery_options_def)

subsection \<open>The two paths of getPlugins and of init\<close>

lemma getPlugins_hit:
  "cache_has (cache s) ''plugins.enabled'' \<Longrightarrow>
   getPlugins E options s = (as_plugins (cache_get (cache s) ''plugins.enabled''), s)"
  by (simp add: getPlugins_def)

lemma getPlugins_miss:
  "\<not> cache_has (cache s) ''plugins.enabled'' \<Longrightarrow>
   getPlugins E options s =
     (enabled (discovered E s options),
      cache_put ''plugins.invalid'' (VPlugins (invalids (discovered E s options)))
        (cache_put ''plugins.enabled'' (VPlugins (enabled (discovered E s options)))
          (cache_put ''plugins.disabled'' (VPlugins (disabled (discovered E s options)))
            (log (Discover (cfg_get (config s) ''plugin.dirs'') (discovery_options s options))
              (log (Debug ''running %o plugin discovery...'') s)))))"
  by (simp add: getPlugins_def Let_def discovered_def discovery_options_def)

lemma composed_any_oid:
  "plain (add_plugins ps (Config_new n p)) = plain (add_plugins ps (Config_new 0 p))"
proof -
  have "\<And>m m'. plain m = plain m' \<Longrightarrow> plain (add_plugins ps m) = plain (add_plugins ps m')"
    by (induction ps) (simp_all add: config_add_def)
  then show ?thesis by (simp add: Config_new_def)
qed

lemma built_manifest:
  "add_plugins (rev ps) (Config_new n \<lparr>conf_id = ''manifest'', stores = []\<rparr>)
     = Config_new n (composed ps)"
proof -
  have "oid (add_plugins (rev ps) (Config_new n \<lparr>conf_id = ''manifest'', stores = []\<rparr>)) = n"
    by (simp add: Config_new_def)
  moreover have "plain (add_plugins (rev ps) (Config_new n \<lparr>conf_id = ''manifest'', stores = []\<rparr>))
      = composed ps"
    unfolding composed_def by (rule composed_any_oid)
  ultimately show ?thesis by (simp add: Config_new_def)
qed

lemma getManifest_miss':
  "\<not> cache_has (cache s) ''manifest'' \<Longrightarrow>
   getManifest s =
     (Config_new (next_oid s) (composed (plugins s)),
      cache_put ''manifest'' (VConfig (Config_new (next_oid s) (composed (plugins s))))
        ((log (Debug ''running %o manifest construction...'') s)
           \<lparr>next_oid := Suc (next_oid s)\<rparr>))"
  by (simp add: getManifest_miss built_manifest)

lemma discovered_cong [simp]:
  "discovered E (log e s) os = discovered E s os"
  "discovered E (s\<lparr>cache := c\<rparr>) os = discovered E s os"
  "discovered E (s\<lparr>plugins := ps\<rparr>) os = discovered E s os"
  "discovered E (s\<lparr>manifest := m\<rparr>) os = discovered E s os"
  "discovered E (s\<lparr>next_oid := n\<rparr>) os = discovered E s os"
  by (simp_all add: discovered_def)

lemma init_miss:
  assumes "\<not> cache_has (cache s) ''plugins.enabled''" and "\<not> cache_has (cache s) ''manifest''"
  shows "init E s =
     (cache_put ''manifest'' (VConfig (Config_new (next_oid s) (composed (enabled (discovered E s [])))))
       ((log (Debug ''running %o manifest construction...'')
         ((cache_put ''plugins.invalid'' (VPlugins (invalids (discovered E s [])))
           (cache_put ''plugins.enabled'' (VPlugins (enabled (discovered E s [])))
             (cache_put ''plugins.disabled'' (VPlugins (disabled (discovered E s [])))
               (log (Discover (cfg_get (config s) ''plugin.dirs'') (discovery_options s []))
                 (log (Debug ''running %o plugin discovery...'') s)))))
          \<lparr>plugins := enabled (discovered E s [])\<rparr>))
        \<lparr>next_oid := Suc (next_oid s)\<rparr>))
     \<lparr>manifest := Config_new (next_oid s) (composed (enabled (discovered E s [])))\<rparr>"
proof -
  let ?d = "discovered E s []"
  let ?s5 = "cache_put ''plugins.invalid'' (VPlugins (invalids ?d))
           (cache_put ''plugins.enabled'' (VPlugins (enabled ?d))
             (cache_put ''plugins.disabled'' (VPlugins (disabled ?d))
               (log (Discover (cfg_get (config s) ''plugin.dirs'') (discovery_options s []))
                 (log (Debug ''running %o plugin discovery...'') s))))"
  have gp: "getPlugins E [] s = (enabled ?d, ?s5)"
    using assms(1) by (rule getPlugins_miss)
  have miss: "\<not> cache_has (cache (?s5\<lparr>plugins := enabled ?d\<rparr>)) ''manifest''"
    using assms(2) by (simp add: cache_has_set)
  have gm: "getManifest (?s5\<lparr>plugins := enabled ?d\<rparr>) =
      (Config_new (next_oid s) (composed (enabled ?d)),
       cache_put ''manifest'' (VConfig (Config_new (next_oid s) (composed (enabled ?d))))
        ((log (Debug ''running %o manifest construction...'') (?s5\<lparr>plugins := enabled ?d\<rparr>))
           \<lparr>next_oid := Suc (next_oid s)\<rparr>))"
    using getManifest_miss' [OF miss] by simp
  show ?thesis
    unfolding init_def gp by (simp add: gm)
qed

lemma init_fields_miss:
  assumes "\<not> cache_has (cache s) ''plugins.enabled''" and "\<not> cache_has (cache s) ''manifest''"
  shows "plugins (init E s) = enabled (discovered E s [])"
    and "manifest (init E s) = Config_new (next_oid s) (composed (enabled (discovered E s [])))"
    and "next_oid (init E s) = Suc (next_oid s)"
    and "trace (init E s) = trace s @ tl (reint_events s (discovered E s []) (next_oid s))"
    and "cache (init E s) =
           cache_set (cache_set (cache_set (cache_set (cache s)
             ''plugins.disabled'' (VPlugins (disabled (discovered E s []))))
             ''plugins.enabled'' (VPlugins (enabled (discovered E s []))))
             ''plugins.invalid'' (VPlugins (invalids (discovered E s []))))
             ''manifest'' (VConfig (Config_new (next_oid s) (composed (enabled (discovered E s [])))))"
    and "config (init E s) = config s" and "world (init E s) = world s"
    and "hooks (init E s) = hooks s" and "scopes (init E s) = scopes s"
    and "pid (init E s) = pid s" and "debug_ns (init E s) = debug_ns s"
    and "componentsCache (init E s) = componentsCache s"
  by (simp_all add: init_miss [OF assms] reint_events_def)

lemma reint_fields:
  "plugins (reint E s) = enabled (discovered E s [])"
  "manifest (reint E s) = Config_new (next_oid s) (composed (enabled (discovered E s [])))"
  "next_oid (reint E s) = Suc (next_oid s)"
  "trace (reint E s) = trace s @ reint_events s (discovered E s []) (next_oid s)"
  "cache (reint E s) =
           cache_set (cache_set (cache_set (cache_set (cache_flush (cache s))
             ''plugins.disabled'' (VPlugins (disabled (discovered E s []))))
             ''plugins.enabled'' (VPlugins (enabled (discovered E s []))))
             ''plugins.invalid'' (VPlugins (invalids (discovered E s []))))
             ''manifest'' (VConfig (Config_new (next_oid s) (composed (enabled (discovered E s [])))))"
  "config (reint E s) = config s" "world (reint E s) = world s"
  "hooks (reint E s) = hooks s" "scopes (reint E s) = scopes s"
  "pid (reint E s) = pid s" "debug_ns (reint E s) = debug_ns s"
  "componentsCache (reint E s) = componentsCache s"
  unfolding reint_def
  by (simp_all add: init_fields_miss reint_events_def discovery_options_def)

lemma coherent_reint: "coherent (reint E s)"
  by (simp add: coherent_def reint_fields cache_get_set Config_new_def)

subsection \<open>What each operation leaves unchanged, and coherence\<close>

lemma coherent_cong:
  "plugins s' = plugins s \<Longrightarrow> manifest s' = manifest s \<Longrightarrow> cache s' = cache s \<Longrightarrow>
   coherent s' = coherent s"
  by (simp add: coherent_def)

lemma hooks_clean_cong: "cache s' = cache s \<Longrightarrow> hooks_clean s' = hooks_clean s"
  by (simp add: hooks_clean_def)

lemma getPlugins_frame:
  "plugins (snd (getPlugins E os s)) = plugins s"
  "manifest (snd (getPlugins E os s)) = manifest s"
  "hooks (snd (getPlugins E os s)) = hooks s"
  "world (snd (getPlugins E os s)) = world s"
  "config (snd (getPlugins E os s)) = config s"
  "backend (cache (snd (getPlugins E os s))) = backend (cache s)"
  by (cases "cache_has (cache s) ''plugins.enabled''"; simp add: getPlugins_hit getPlugins_miss)+

lemma getManifest_frame:
  "plugins (snd (getManifest s)) = plugins s"
  "manifest (snd (getManifest s)) = manifest s"
  "hooks (snd (getManifest s)) = hooks s"
  "world (snd (getManifest s)) = world s"
  "config (snd (getManifest s)) = config s"
  "backend (cache (snd (getManifest s))) = backend (cache s)"
  by (cases "cache_has (cache s) ''manifest''"; simp add: getManifest_hit getManifest_miss')+

lemma getHooks_hit:
  "cache_has (cache s) ''hooks'' \<Longrightarrow> getHooks s = (as_hooks (cache_get (cache s) ''hooks''), s)"
  by (simp add: getHooks_def)

lemma getHooks_miss:
  "\<not> cache_has (cache s) ''hooks'' \<Longrightarrow>
   getHooks s = ([], cache_put ''hooks'' (VHooks []) (log (Debug ''running %o hooks discovery...'') s))"
  by (simp add: getHooks_def Let_def)

lemma getHooks_frame:
  "plugins (snd (getHooks s)) = plugins s"
  "manifest (snd (getHooks s)) = manifest s"
  "hooks (snd (getHooks s)) = hooks s"
  "world (snd (getHooks s)) = world s"
  "config (snd (getHooks s)) = config s"
  "backend (cache (snd (getHooks s))) = backend (cache s)"
  by (cases "cache_has (cache s) ''hooks''"; simp add: getHooks_hit getHooks_miss)+

lemma get_component_instance_frame:
  "plugins (snd (get_component_instance E a s)) = plugins s"
  "manifest (snd (get_component_instance E a s)) = manifest s"
  "hooks (snd (get_component_instance E a s)) = hooks s"
  "world (snd (get_component_instance E a s)) = world s"
  "config (snd (get_component_instance E a s)) = config s"
  "cache (snd (get_component_instance E a s)) = cache s"
  "trace (snd (get_component_instance E a s)) = trace s"
  "componentsCache (snd (get_component_instance E a s)) = componentsCache s"
  by (simp_all add: get_component_instance_def Let_def split: option.splits)

lemma getComponentInstance_frame:
  "plugins (snd (getComponentInstance E c ctor opts s)) = plugins s"
  "manifest (snd (getComponentInstance E c ctor opts s)) = manifest s"
  "hooks (snd (getComponentInstance E c ctor opts s)) = hooks s"
  "world (snd (getComponentInstance E c ctor opts s)) = world s"
  "config (snd (getComponentInstance E c ctor opts s)) = config s"
  "cache (snd (getComponentInstance E c ctor opts s)) = cache s"
  "trace (snd (getComponentInstance E c ctor opts s)) = trace s @ [ResolveInstance (resolve_args c ctor opts s)]"
  "componentsCache (snd (getComponentInstance E c ctor opts s)) = componentsCache s"
  by (simp_all add: getComponentInstance_def Let_def get_component_instance_frame)

lemma runHook_frame:
  "plugins (snd (runHook E ev d s)) = plugins s"
  "manifest (snd (runHook E ev d s)) = manifest s"
  "hooks (snd (runHook E ev d s)) = hooks s"
  "config (snd (runHook E ev d s)) = config s"
  "cache (snd (runHook E ev d s)) = cache s"
  "trace (snd (runHook E ev d s)) = trace s @ [RunHook (hook_args ev d s)]"
  by (simp_all add: runHook_def Let_def split_def)

lemma coherent_getPlugins: "coherent s \<Longrightarrow> coherent (snd (getPlugins E os s))"
proof (cases "backend (cache s)")
  case FileStorage
  assume "coherent s"
  with FileStorage have "cache_has (cache s) ''plugins.enabled''"
    by (simp add: coherent_def cache_has_get)
  with \<open>coherent s\<close> show ?thesis by (simp add: getPlugins_hit)
next
  case NoStorage
  assume "coherent s"
  with NoStorage show ?thesis
    by (simp add: getPlugins_miss coherent_def)
qed

lemma coherent_getManifest: "coherent s \<Longrightarrow> coherent (snd (getManifest s))"
proof (cases "backend (cache s)")
  case FileStorage
  assume "coherent s"
  with FileStorage have "cache_has (cache s) ''manifest''"
    by (simp add: coherent_def cache_has_get)
  with \<open>coherent s\<close> show ?thesis by (simp add: getManifest_hit coherent_def)
next
  case NoStorage
  assume "coherent s"
  with NoStorage show ?thesis
    by (simp add: getManifest_miss' coherent_def)
qed

lemma coherent_getHooks: "coherent s \<Longrightarrow> coherent (snd (getHooks s))"
  by (cases "cache_has (cache s) ''hooks''")
     (auto simp: getHooks_hit getHooks_miss coherent_def cache_get_set)

lemma coherent_removePlugin: "coherent s \<Longrightarrow> coherent (snd (removePlugin E name s))"
  by (simp add: removePlugin_def Let_def coherent_reint split: option.splits lookup.splits)

lemma coherent_getComponentInstance:
  "coherent s \<Longrightarrow> coherent (snd (getComponentInstance E c ctor opts s))"
  by (simp add: coherent_def getComponentInstance_frame)

lemma coherent_runHook: "coherent s \<Longrightarrow> coherent (snd (runHook E ev d s))"
  by (simp add: coherent_def runHook_frame)

lemma addPlugin_cases:
  assumes r: "getComponentInstance E ''core.plugin-installer'' (JObj []) no_opts s = (ri, s1)"
  shows "(\<exists>e. ri = Inl e \<and> addPlugin E name dest s = (Inl e, s1))
       \<or> (\<exists>inst fo e w'. ri = Inr inst
             \<and> addPlugin E name dest s = (Inl e, log fo (s1\<lparr>world := w'\<rparr>)))
       \<or> (\<exists>inst fo p w'. ri = Inr inst
             \<and> addPlugin E name dest s = (Inr p, reint E (log fo (s1\<lparr>world := w'\<rparr>))))"
proof (cases ri)
  case (Inl e)
  with r show ?thesis by (simp add: addPlugin_def Let_def)
next
  case (Inr inst)
  let ?dest = "case dest of None \<Rightarrow> cfg_get (config s) ''plugin.global-install-dir'' | Some d \<Rightarrow> d"
  let ?fo = "\<lparr>f_channel = cfg_get (config s) ''core.release-channel'', f_installer = inst,
              f_type = ''global''\<rparr>"
  obtain rf w' where f: "plugin_fetch E name ?dest ?fo (world s1) = (rf, w')"
    by (cases "plugin_fetch E name ?dest ?fo (world s1)")
  show ?thesis
  proof (cases rf)
    case (Inl e)
    with r Inr f have "addPlugin E name dest s = (Inl e, log (PluginFetch name ?dest ?fo) (s1\<lparr>world := w'\<rparr>))"
      by (simp add: addPlugin_def Let_def)
    with Inr show ?thesis by blast
  next
    case (Inr p)
    with r \<open>ri = Inr inst\<close> f
    have "addPlugin E name dest s = (Inr p, reint E (log (PluginFetch name ?dest ?fo) (s1\<lparr>world := w'\<rparr>)))"
      by (simp add: addPlugin_def Let_def)
    with \<open>ri = Inr inst\<close> show ?thesis by blast
  qed
qed

lemma coherent_addPlugin: "coherent s \<Longrightarrow> coherent (snd (addPlugin E name dest s))"
proof -
  assume c: "coherent s"
  obtain ri s1 where r: "getComponentInstance E ''core.plugin-installer'' (JObj []) no_opts s = (ri, s1)"
    by (cases "getComponentInstance E ''core.plugin-installer'' (JObj []) no_opts s")
  from c have c1: "coherent s1"
    using coherent_getComponentInstance [of s E "''core.plugin-installer''" "JObj []" no_opts] r by simp
  have c2: "\<And>fo w'. coherent (log fo (s1\<lparr>world := w'\<rparr>))"
    using c1 by (simp add: coherent_def)
  from addPlugin_cases [OF r, of name dest] show ?thesis
    using c1 c2 coherent_reint by (elim disjE exE conjE) simp_all
qed

lemma coherent_step: "coherent s \<Longrightarrow> coherent (step E c s)"
  by (cases c)
     (simp_all add: coherent_getPlugins coherent_getManifest coherent_getHooks reinit_def
        coherent_reint coherent_removePlugin coherent_addPlugin coherent_runHook
        coherent_getComponentInstance)

lemma coherent_run: "coherent s \<Longrightarrow> coherent (run E calls s)"
  unfolding run_def by (induction calls arbitrary: s) (simp_all add: coherent_step)

lemma coherent_getManifest_result:
  "coherent s \<Longrightarrow> plain (fst (getManifest s)) = composed (plugins s)"
  by (cases "cache_has (cache s) ''manifest''")
     (auto simp: getManifest_hit getManifest_miss' coherent_def cache_has_def Config_new_def)

lemma coherent_getPlugins_result:
  "coherent s \<Longrightarrow> backend (cache s) = FileStorage \<Longrightarrow> fst (getPlugins E os s) = plugins s"
  by (simp add: coherent_def getPlugins_def cache_has_get)

lemma no_storage_getPlugins_result:
  "backend (cache s) = NoStorage \<Longrightarrow> fst (getPlugins E os s) = enabled (discovered E s os)"
  by (simp add: getPlugins_miss)

subsection \<open>The backend is fixed; what a reinitialisation leaves cached\<close>

lemma removePlugin_frame:
  "backend (cache (snd (removePlugin E name s))) = backend (cache s)"
  "hooks (snd (removePlugin E name s)) = hooks s"
  by (simp_all add: removePlugin_def Let_def reint_fields split: option.splits lookup.splits)

lemma addPlugin_frame:
  "backend (cache (snd (addPlugin E name dest s))) = backend (cache s)"
  "hooks (snd (addPlugin E name dest s)) = hooks s"
proof -
  obtain ri s1 where r: "getComponentInstance E ''core.plugin-installer'' (JObj []) no_opts s = (ri, s1)"
    by (cases "getComponentInstance E ''core.plugin-installer'' (JObj []) no_opts s")
  have s1: "cache s1 = cache s" "hooks s1 = hooks s"
    using getComponentInstance_frame [of E "''core.plugin-installer''" "JObj []" no_opts s] r by simp_all
  from addPlugin_cases [OF r, of name dest]
  show "backend (cache (snd (addPlugin E name dest s))) = backend (cache s)"
    and "hooks (snd (addPlugin E name dest s)) = hooks s"
    using s1 by (auto simp: reint_fields)
qed

lemma backend_step: "backend (cache (step E c s)) = backend (cache s)"
  by (cases c)
     (simp_all add: getPlugins_frame getManifest_frame getHooks_frame reinit_def reint_fields
        removePlugin_frame addPlugin_frame runHook_frame getComponentInstance_frame)

lemma backend_run: "backend (cache (run E calls s)) = backend (cache s)"
  unfolding run_def by (induction calls arbitrary: s) (simp_all add: backend_step)

lemma discovered_reint: "discovered E (reint E s) os = discovered E s os"
  by (simp add: discovered_def discovery_options_def reint_fields)

lemma cache_has_reint:
  "cache_has (cache (reint E s)) k \<longleftrightarrow>
     backend (cache s) = FileStorage \<and>
     k \<in> set [''plugins.disabled'', ''plugins.enabled'', ''plugins.invalid'', ''manifest'']"
  by (auto simp: reint_fields cache_has_set)

subsection \<open>The constructor and the example installation\<close>

lemma demo_discovered [simp]:
  "discovered demo_env s os = \<lparr>disabled = [], enabled = world s, invalids = []\<rparr>"
  by (simp add: discovered_def demo_env_def)

lemma demo_env_fields [simp]:
  "parse_package_name demo_env n = n"
  "plugin_remove demo_env p w = AList.delete (pname p) w"
  "run_hook demo_env a w = (Inr JNull, w)"
  by (simp_all add: demo_env_def)

lemma demo_fetch:
  "plugin_fetch demo_env name dest fo w =
     (if name = ''broken'' then (Inl (Rejected ''fetch failed''), w)
      else (Inr \<lparr>pname = name, ptype = f_type fo, pmanifest = [(''name'', JStr name)]\<rparr>,
            w @ [(name, \<lparr>pname = name, ptype = f_type fo,
                          pmanifest = [(''name'', JStr name)]\<rparr>)]))"
  by (simp add: demo_env_def)

lemma init_hooks: "hooks (init E s) = hooks s"
  by (simp add: init_def Let_def split_def getManifest_frame getPlugins_frame)

lemma construct_hooks: "hooks (construct E cfg dbg disk w) = None"
  by (simp add: construct_def Let_def init_hooks)

lemma demo_env_more [simp]:
  "product_defaults demo_env i = [(''core.release-channel'', JStr ''stable'')]"
  "generate_id demo_env w = ''i1''"
  by (simp_all add: demo_env_def)

lemma demo_base:
  "demo_product caching =
     init demo_env
       \<lparr>config = \<lparr>cf_ident = ''lando'', cf_managed = ''managed'',
                  cf_values = [(''core.caching'', JBool caching),
                               (''managed:system.instance'', JStr ''i1''),
                               (''core.release-channel'', JStr ''stable'')]\<rparr>,
        pid = ''lando'', debug_ns = ''@lando/core:product'',
        cache = \<lparr>backend = (if caching then FileStorage else NoStorage), entries = []\<rparr>,
        plugins = [],
        manifest = Config_new 0 \<lparr>conf_id = [], stores = []\<rparr>, hooks = None,
        componentsCache = 0, scopes = [(0, [])], next_oid = 0,
        world = [(''a'', plugin_a), (''b'', plugin_b)], trace = []\<rparr>"
  by (simp add: demo_product_def construct_def Let_def demo_config_def cfg_defaults_def
      cfg_get_def cfg_set_def)

lemma demo_product_fields:
  "plugins (demo_product c) = [(''a'', plugin_a), (''b'', plugin_b)]"
  "manifest (demo_product c) = Config_new 0 (composed [(''a'', plugin_a), (''b'', plugin_b)])"
  "world (demo_product c) = [(''a'', plugin_a), (''b'', plugin_b)]"
  "hooks (demo_product c) = None"
  "next_oid (demo_product c) = 1"
  "pid (demo_product c) = ''lando''"
  "debug_ns (demo_product c) = ''@lando/core:product''"
  "scopes (demo_product c) = [(0, [])]"
  "componentsCache (demo_product c) = 0"
  "cfg_get (config (demo_product c)) ''core.release-channel'' = JStr ''stable''"
  "cfg_get (config (demo_product c)) ''plugin.global-install-dir'' = JNull"
  "cfg_get (config (demo_product c)) ''plugin.dirs'' = JNull"
  "backend (cache (demo_product c)) = (if c then FileStorage else NoStorage)"
  by (simp_all add: demo_base init_fields_miss cache_has_def cfg_get_def)

lemma demo_product_cache:
  "cache (demo_product True) =
     \<lparr>backend = FileStorage,
      entries = [(''plugins.disabled'', VPlugins []),
                 (''plugins.enabled'', VPlugins [(''a'', plugin_a), (''b'', plugin_b)]),
                 (''plugins.invalid'', VPlugins []),
                 (''manifest'', VPlain (composed [(''a'', plugin_a), (''b'', plugin_b)]))]\<rparr>"
  "cache (demo_product False) = \<lparr>backend = NoStorage, entries = []\<rparr>"
  by (simp_all add: demo_base init_fields_miss cache_has_def cache_set_def Config_new_def)

lemma demo_product_trace:
  "discoveries (trace (demo_product c)) = 1"
  "CacheFlush \<notin> set (trace (demo_product c))"
  by (simp_all add: demo_base init_fields_miss cache_has_def reint_events_def discoveries_def)

lemma demo_composed:
  "composed [(''a'', plugin_a), (''b'', plugin_b)] =
     \<lparr>conf_id = ''manifest'',
      stores = [(''b'', \<lparr>stype = ''literal'', store = [(''tag'', JStr ''from-b'')]\<rparr>),
                (''a'', \<lparr>stype = ''literal'',
                        store = [(''tag'', JStr ''from-a''),
                                 (''registry'',
                                  JObj [(''core'', JObj [(''plugin-installer'', JStr ''installer'')])])]\<rparr>)]\<rparr>"
  by (simp add: composed_def Config_new_def config_add_def sanitise_def json_clone_def
      plugin_a_def plugin_b_def)

lemma demo_registry:
  "getRegistry (demo_product c)
     = Some (JObj [(''core'', JObj [(''plugin-installer'', JStr ''installer'')])])"
  by (simp add: getRegistry_def demo_product_fields demo_composed config_get_def config_tree_def
      Config_new_def)

lemma dotted_installer: "dotted ''core.plugin-installer'' = [''core'', ''plugin-installer'']"
  by (simp add: dotted_def)

lemma demo_default_scope [simp]: "default_scope demo_env = None"
  by (simp add: demo_env_def)

lemma demo_installer_resolved:
  "fst (getComponentInstance demo_env ''core.plugin-installer'' (JObj []) no_opts (demo_product c))
     = Inr (demo_installer 1)"
  by (simp add: getComponentInstance_def get_component_instance_def resolve_args_def no_opts_def
      effective_scope_def demo_registry dotted_installer demo_product_fields Let_def
      demo_installer_def)

subsection \<open>Counting discoveries\<close>

lemma discoveries_append [simp]: "discoveries (t @ u) = discoveries t + discoveries u"
  by (simp add: discoveries_def)

lemma discoveries_simps [simp]:
  "discoveries [] = 0"
  "discoveries (Discover dirs opts # t) = Suc (discoveries t)"
  "discoveries (Debug m # t) = discoveries t"
  "discoveries (CacheSet k v # t) = discoveries t"
  "discoveries (CacheFlush # t) = discoveries t"
  by (simp_all add: discoveries_def)

subsection \<open>The cache entry of the hooks\<close>

lemma hooks_clean_getPlugins: "hooks_clean s \<Longrightarrow> hooks_clean (snd (getPlugins E os s))"
  by (cases "cache_has (cache s) ''plugins.enabled''")
     (auto simp: getPlugins_hit getPlugins_miss hooks_clean_def cache_has_set cache_get_set)

lemma hooks_clean_getManifest: "hooks_clean s \<Longrightarrow> hooks_clean (snd (getManifest s))"
  by (cases "cache_has (cache s) ''manifest''")
     (auto simp: getManifest_hit getManifest_miss' hooks_clean_def cache_has_set cache_get_set)

lemma hooks_clean_getHooks: "hooks_clean (snd (getHooks s)) = hooks_clean s"
  by (cases "cache_has (cache s) ''hooks''")
     (auto simp: getHooks_hit getHooks_miss hooks_clean_def cache_has_set cache_get_set)

lemma hooks_clean_reint: "hooks_clean (reint E s)"
  by (simp add: hooks_clean_def cache_has_reint)

lemma hooks_clean_removePlugin: "hooks_clean s \<Longrightarrow> hooks_clean (snd (removePlugin E name s))"
  by (simp add: removePlugin_def Let_def hooks_clean_reint split: option.splits lookup.splits)

lemma hooks_clean_addPlugin: "hooks_clean s \<Longrightarrow> hooks_clean (snd (addPlugin E name dest s))"
proof -
  assume c: "hooks_clean s"
  obtain ri s1 where r: "getComponentInstance E ''core.plugin-installer'' (JObj []) no_opts s = (ri, s1)"
    by (cases "getComponentInstance E ''core.plugin-installer'' (JObj []) no_opts s")
  have "cache s1 = cache s"
    using getComponentInstance_frame [of E "''core.plugin-installer''" "JObj []" no_opts s] r by simp
  with c have c1: "hooks_clean s1" by (simp add: hooks_clean_def)
  then have c2: "\<And>fo w'. hooks_clean (log fo (s1\<lparr>world := w'\<rparr>))"
    by (simp add: hooks_clean_def)
  from addPlugin_cases [OF r, of name dest] show ?thesis
    using c1 c2 hooks_clean_reint by (elim disjE exE conjE) simp_all
qed

lemma hooks_clean_step: "hooks_clean s \<Longrightarrow> hooks_clean (step E c s)"
proof (cases c)
  case (CRunHook ev d)
  assume "hooks_clean s"
  with CRunHook show ?thesis by (simp add: hooks_clean_def runHook_frame)
next
  case (CGetComponentInstance k ctor opts)
  assume "hooks_clean s"
  with CGetComponentInstance show ?thesis by (simp add: hooks_clean_def getComponentInstance_frame)
qed (simp_all add: hooks_clean_getPlugins hooks_clean_getManifest hooks_clean_getHooks reinit_def
        hooks_clean_reint hooks_clean_removePlugin hooks_clean_addPlugin)

lemma hooks_clean_run: "hooks_clean s \<Longrightarrow> hooks_clean (run E calls s)"
  unfolding run_def by (induction calls arbitrary: s) (simp_all add: hooks_clean_step)

lemma hooks_clean_init: "hooks_clean s \<Longrightarrow> hooks_clean (init E s)"
proof -
  assume c: "hooks_clean s"
  have "cache (init E s) = cache (snd (getManifest ((snd (getPlugins E [] s))\<lparr>plugins := fst (getPlugins E [] s)\<rparr>)))"
    by (simp add: init_def Let_def split_def)
  moreover have "hooks_clean ((snd (getPlugins E [] s))\<lparr>plugins := fst (getPlugins E [] s)\<rparr>)"
    using hooks_clean_getPlugins [OF c, of E "[]"] by (simp add: hooks_clean_def)
  ultimately show ?thesis
    using hooks_clean_getManifest hooks_clean_cong by metis
qed

lemma hooks_clean_construct: "hooks_clean (construct E cfg dbg None w)"
  unfolding construct_def Let_def
  by (rule hooks_clean_init) (simp add: hooks_clean_def cache_has_def)

lemma cache_get_Some_backend: "cache_get c k = Some v \<Longrightarrow> backend c = FileStorage"
  by (simp add: cache_get_def split: if_splits)

lemma hooks_entry_step:
  assumes nf: "\<not> flushes c" and h: "cache_get (cache s) ''hooks'' = Some v"
  shows "cache_get (cache (step E c s)) ''hooks'' = Some v"
proof -
  from h have fs: "backend (cache s) = FileStorage" by (rule cache_get_Some_backend)
  show ?thesis
  proof (cases c)
    case (CGetPlugins os)
    with h fs show ?thesis
      by (cases "cache_has (cache s) ''plugins.enabled''")
         (simp_all add: getPlugins_hit getPlugins_miss cache_get_set)
  next
    case CGetManifest
    with h fs show ?thesis
      by (cases "cache_has (cache s) ''manifest''")
         (simp_all add: getManifest_hit getManifest_miss' cache_get_set)
  next
    case CGetHooks
    with h show ?thesis by (simp add: getHooks_hit cache_has_get)
  next
    case (CRunHook ev d)
    with h show ?thesis by (simp add: runHook_frame)
  next
    case (CGetComponentInstance k ctor opts)
    with h show ?thesis by (simp add: getComponentInstance_frame)
  qed (use nf in simp_all)
qed

lemma hooks_entry_run:
  "list_all (\<lambda>c. \<not> flushes c) calls \<Longrightarrow> cache_get (cache s) ''hooks'' = Some v \<Longrightarrow>
   cache_get (cache (run E calls s)) ''hooks'' = Some v"
  unfolding run_def by (induction calls arbitrary: s) (simp_all add: hooks_entry_step)

subsection \<open>The property hooks\<close>

lemma hooks_step: "hooks (step E c s) = hooks s"
  by (cases c)
     (simp_all add: getPlugins_frame getManifest_frame getHooks_frame reinit_def reint_fields
        removePlugin_frame addPlugin_frame runHook_frame getComponentInstance_frame)

lemma hooks_run: "hooks (run E calls s) = hooks s"
  unfolding run_def by (induction calls arbitrary: s) (simp_all add: hooks_step)

subsection \<open>The paths of getComponentInstance\<close>

lemma resolve_args_log [simp]: "resolve_args c ctor opts (log e s) = resolve_args c ctor opts s"
  by (simp add: resolve_args_def getRegistry_def)

lemma scope_of_log [simp]:
  "scope_of (log e s) sc = scope_of s sc"
  "scope_of (s\<lparr>next_oid := n\<rparr>) sc = scope_of s sc"
  by (simp_all add: scope_of_def)

lemma getRegistry_frame: "manifest s' = manifest s \<Longrightarrow> getRegistry s' = getRegistry s"
  by (simp add: getRegistry_def)

lemma effective_scope_args [simp]:
  "effective_scope E (resolve_args c ctor opts s)
     = (case o_cache opts of Some sc \<Rightarrow> Some sc | None \<Rightarrow> default_scope E)"
  by (simp add: effective_scope_def resolve_args_def)

lemma getComponentInstance_no_scope:
  assumes "effective_scope E (resolve_args c ctor opts s) = None"
  shows "getComponentInstance E c ctor opts s =
     (case (case getRegistry s of None \<Rightarrow> None | Some r \<Rightarrow> jget r (dotted c)) of
        None \<Rightarrow> (Inl (NotFound c), log (ResolveInstance (resolve_args c ctor opts s)) s)
      | Some entry \<Rightarrow>
          (Inr \<lparr>inst_oid = next_oid s, inst_component = c, inst_entry = entry, inst_ctor = ctor,
                inst_defaults = o_defaults opts, inst_init = o_init opts\<rparr>,
           (log (ResolveInstance (resolve_args c ctor opts s)) s)\<lparr>next_oid := Suc (next_oid s)\<rparr>))"
  using assms unfolding getComponentInstance_def get_component_instance_def Let_def
  by (simp add: resolve_args_def split: option.splits)





subsection \<open>The content getManifest returns\<close>

lemma stores_composed_subset: "set (stores (composed ps)) \<subseteq> literal_of ` set ps"
  using stores_add_plugins_subset [of "rev ps" "Config_new 0 \<lparr>conf_id = ''manifest'', stores = []\<rparr>"]
  by (simp add: composed_def Config_new_def)

lemma stores_composed_distinct:
  "distinct (map fst ps) \<Longrightarrow> stores (composed ps) = map literal_of (rev ps)"
  using stores_add_plugins_distinct [of "rev ps" "Config_new 0 \<lparr>conf_id = ''manifest'', stores = []\<rparr>"]
  by (simp add: composed_def Config_new_def distinct_rev rev_map [symmetric])

lemma getManifest_plain:
  "\<not> cache_has (cache s) ''manifest'' \<or> coherent s \<Longrightarrow>
   plain (fst (getManifest s)) = composed (plugins s)"
  by (cases "cache_has (cache s) ''manifest''")
     (auto simp: getManifest_miss' Config_new_def coherent_getManifest_result)

lemma coherent_init: 
  "\<not> cache_has (cache s) ''plugins.enabled'' \<Longrightarrow> \<not> cache_has (cache s) ''manifest'' \<Longrightarrow>
   coherent (init E s)"
  by (simp add: coherent_def init_fields_miss cache_get_set Config_new_def)

lemma coherent_construct: "coherent (construct E cfg dbg None w)"
  unfolding construct_def Let_def
  by (rule coherent_init) (simp_all add: cache_has_def)

lemma coherent_demo_product: "coherent (run demo_env calls (demo_product c))"
  unfolding demo_product_def by (rule coherent_run) (rule coherent_construct)

subsection \<open>Spread options and more events\<close>

lemma map_of_spread:
  "map_of (spread defaults options) = map_of defaults ++ map_of (rev options)"
proof -
  have "\<And>acc. map_of (fold (\<lambda>kv acc. AList.update (fst kv) (snd kv) acc) options acc)
            = map_of acc ++ map_of (rev options)"
  proof (induction options)
    case Nil
    then show ?case by simp
  next
    case (Cons kv options)
    show ?case
      by (simp add: Cons.IH AList.update_conv' map_add_def fun_eq_iff split: option.splits)
  qed
  then show ?thesis by (simp add: spread_def)
qed

lemma discoveries_more [simp]:
  "discoveries (ConfigSave i # t) = discoveries t"
  "discoveries (StaticFlush # t) = discoveries t"
  by (simp_all add: discoveries_def)

subsection \<open>Override order\<close>

text \<open>
  Claim C1, as amended. The enabled plugins are the entries of an object keyed by plugin
  name, so the names are pairwise distinct. \<open>getManifest\<close> adds the sanitised fragments
  in reverse discovery order, each under its plugin's name, so the first-discovered plugin
  is added last; and for a leaf that the first-discovered plugin declares at a path that
  does not start at one of the four stripped fields, the composed manifest has that
  plugin's value, whatever the other plugins declare there. This holds for what
  \<open>getManifest()\<close> returns when it builds (nothing is cached) and when it revives the
  cached manifest of the current plugins.
\<close>

theorem getManifest_first_discovered_wins:
  assumes ps: "plugins s = (n1, p1) # rest"
    and dist: "distinct (map fst (plugins s))"
    and fresh: "\<not> cache_has (cache s) ''manifest'' \<or> coherent s"
    and kept: "k \<notin> set stripped_fields"
    and decl: "jget (JObj (pmanifest p1)) (k # ks) = Some v"
    and leaf: "is_leaf v"
  shows "stores (plain (fst (getManifest s))) = map literal_of (rev (plugins s))
       \<and> config_get (fst (getManifest s)) (k # ks) = Some v"
proof -
  have st: "stores (plain (fst (getManifest s))) = map literal_of (rev (plugins s))"
    using fresh dist by (simp add: getManifest_plain stores_composed_distinct)
  from st have last: "stores (plain (fst (getManifest s)))
      = map literal_of (rev rest) @ [literal_of (n1, p1)]"
    by (simp add: ps)
  have "jget (JObj (store (snd (literal_of (n1, p1))))) (k # ks) = Some v"
    using decl kept by (simp add: literal_of_def sanitise_kept)
  then have "config_get (fst (getManifest s)) (k # ks) = Some v"
    using last leaf config_get_last_leaf by blast
  with st show ?thesis by simp
qed

theorem getManifest_first_discovered_wins_witness:
  "map fst (plugins (demo_product False)) = [''a'', ''b'']
   \<and> jget (JObj (pmanifest plugin_a)) [''tag''] = Some (JStr ''from-a'')
   \<and> jget (JObj (pmanifest plugin_b)) [''tag''] = Some (JStr ''from-b'')
   \<and> map fst (stores (plain (fst (getManifest (demo_product False))))) = [''b'', ''a'']
   \<and> config_get (fst (getManifest (demo_product False))) [''tag''] = Some (JStr ''from-a'')
   \<and> config_get (fst (getManifest (demo_product True))) [''tag''] = Some (JStr ''from-a'')"
proof -
  have 1: "\<And>c. plugins (demo_product c) = (''a'', plugin_a) # [(''b'', plugin_b)]"
    by (simp add: demo_product_fields)
  have 2: "\<And>c. distinct (map fst (plugins (demo_product c)))"
    by (simp add: demo_product_fields)
  have 3: "\<not> cache_has (cache (demo_product False)) ''manifest'' \<or> coherent (demo_product False)"
    by (simp add: demo_product_cache cache_has_def)
  have 8: "\<not> cache_has (cache (demo_product True)) ''manifest'' \<or> coherent (demo_product True)"
    using coherent_demo_product [of "[]" True] by (simp add: run_def)
  have 4: "''tag'' \<notin> set stripped_fields" by (simp add: stripped_fields_def)
  have 5: "jget (JObj (pmanifest plugin_a)) (''tag'' # []) = Some (JStr ''from-a'')"
    by (simp add: plugin_a_def)
  have 6: "is_leaf (JStr ''from-a'')" by simp
  have 7: "jget (JObj (pmanifest plugin_b)) [''tag''] = Some (JStr ''from-b'')"
    by (simp add: plugin_b_def)
  show ?thesis
    using getManifest_first_discovered_wins [OF 1 2 3 4 5 6]
      getManifest_first_discovered_wins [OF 1 2 8 4 5 6] 5 7
    by (simp add: demo_product_fields literal_of_def)
qed

text \<open>
  Claim C1 as it is stated fails for a leaf at one of the stripped fields: both plugins
  declare \<open>name\<close>, with different values, and the composed manifest has no value
  there, whether it is the field, rebuilt or revived from the cache.
\<close>

theorem getManifest_stripped_leaf_counterexample:
  "plugins (demo_product True) = [(''a'', plugin_a), (''b'', plugin_b)]
   \<and> jget (JObj (pmanifest plugin_a)) [''name''] = Some (JStr ''a'')
   \<and> jget (JObj (pmanifest plugin_b)) [''name''] = Some (JStr ''b'')
   \<and> config_get (manifest (demo_product True)) [''name''] = None
   \<and> config_get (fst (getManifest (demo_product True))) [''name''] = None
   \<and> config_get (fst (getManifest (demo_product False))) [''name''] = None"
proof -
  have hit: "cache_has (cache (demo_product True)) ''manifest''"
    by (simp add: demo_product_cache cache_has_def)
  have miss: "\<not> cache_has (cache (demo_product False)) ''manifest''"
    by (simp add: demo_product_cache cache_has_def)
  have "config_get (fst (getManifest (demo_product True))) [''name''] = None"
    by (simp add: getManifest_hit [OF hit] demo_product_cache cache_get_def demo_composed
        Config_new_def config_get_def config_tree_def)
  moreover have "config_get (fst (getManifest (demo_product False))) [''name''] = None"
    by (simp add: getManifest_miss' [OF miss] demo_product_fields demo_composed
        Config_new_def config_get_def config_tree_def)
  moreover have "config_get (manifest (demo_product True)) [''name''] = None"
    by (simp add: demo_product_fields demo_composed Config_new_def config_get_def config_tree_def)
  ultimately show ?thesis
    by (simp add: demo_product_fields plugin_a_def plugin_b_def)
qed

subsection \<open>Atomic invalidation\<close>

text \<open>
  Claim C2. From every state, \<open>reinit()\<close> first flushes the whole cache store in one
  call, so that afterwards the store has the four entries written by the recomputation and
  no other (the entry \<open>hooks\<close> is gone with the rest); it then runs discovery, and only
  then builds the manifest: the trace is the flush, the discovery and its three entries,
  the manifest construction and its entry, in this order. After it returns, the fields
  \<open>plugins\<close> and \<open>manifest\<close> and the results of \<open>getPlugins()\<close> and
  \<open>getManifest()\<close> are the enabled plugins of that discovery and the manifest composed
  from them. After any further sequence of public calls the manifest, as a field and as
  returned by \<open>getManifest()\<close>, is the one composed from the current \<open>plugins\<close>,
  which a retaining cache also returns from \<open>getPlugins\<close>: no manifest of an older
  plugin set is observable.
\<close>

theorem reinit_atomic:
  "(\<forall>k. cache_has (cache (reinit E s)) k \<longleftrightarrow>
          backend (cache s) = FileStorage \<and>
          k \<in> set [''plugins.disabled'', ''plugins.enabled'', ''plugins.invalid'', ''manifest''])
   \<and> trace (reinit E s) = trace s @ reint_events s (discovered E s []) (next_oid s)
   \<and> plugins (reinit E s) = enabled (discovered E s [])
   \<and> plain (manifest (reinit E s)) = composed (enabled (discovered E s []))
   \<and> fst (getPlugins E [] (reinit E s)) = enabled (discovered E s [])
   \<and> plain (fst (getManifest (reinit E s))) = composed (enabled (discovered E s []))
   \<and> (\<forall>calls. plain (manifest (run E calls (reinit E s)))
                 = composed (plugins (run E calls (reinit E s)))
              \<and> plain (fst (getManifest (run E calls (reinit E s))))
                 = composed (plugins (run E calls (reinit E s)))
              \<and> (backend (cache s) = FileStorage \<longrightarrow>
                   (\<forall>os. fst (getPlugins E os (run E calls (reinit E s)))
                          = plugins (run E calls (reinit E s)))))"
proof -
  have co: "coherent (reinit E s)"
    by (simp add: reinit_def coherent_reint)
  have 1: "\<forall>k. cache_has (cache (reinit E s)) k \<longleftrightarrow>
          backend (cache s) = FileStorage \<and>
          k \<in> set [''plugins.disabled'', ''plugins.enabled'', ''plugins.invalid'', ''manifest'']"
    unfolding reinit_def using cache_has_reint by blast
  have 2: "trace (reinit E s) = trace s @ reint_events s (discovered E s []) (next_oid s)"
    by (simp add: reinit_def reint_fields)
  have 3: "plugins (reinit E s) = enabled (discovered E s [])"
    by (simp add: reinit_def reint_fields)
  have 4: "plain (manifest (reinit E s)) = composed (enabled (discovered E s []))"
    by (simp add: reinit_def reint_fields Config_new_def)
  have 5: "fst (getPlugins E [] (reinit E s)) = enabled (discovered E s [])"
  proof (cases "backend (cache s)")
    case FileStorage
    then have "backend (cache (reinit E s)) = FileStorage"
      by (simp add: reinit_def reint_fields)
    with co 3 show ?thesis by (simp add: coherent_getPlugins_result)
  next
    case NoStorage
    then have "backend (cache (reinit E s)) = NoStorage"
      by (simp add: reinit_def reint_fields)
    then show ?thesis
      by (simp add: no_storage_getPlugins_result) (simp add: reinit_def discovered_reint)
  qed
  have 6: "plain (fst (getManifest (reinit E s))) = composed (enabled (discovered E s []))"
    using coherent_getManifest_result [OF co] 3 by simp
  have 7: "\<forall>calls. plain (manifest (run E calls (reinit E s)))
                 = composed (plugins (run E calls (reinit E s)))
              \<and> plain (fst (getManifest (run E calls (reinit E s))))
                 = composed (plugins (run E calls (reinit E s)))
              \<and> (backend (cache s) = FileStorage \<longrightarrow>
                   (\<forall>os. fst (getPlugins E os (run E calls (reinit E s)))
                          = plugins (run E calls (reinit E s))))"
  proof (intro allI conjI impI)
    fix calls
    have c: "coherent (run E calls (reinit E s))"
      using co by (rule coherent_run)
    then show "plain (manifest (run E calls (reinit E s)))
                 = composed (plugins (run E calls (reinit E s)))"
      by (simp add: coherent_def)
    from c show "plain (fst (getManifest (run E calls (reinit E s))))
                 = composed (plugins (run E calls (reinit E s)))"
      by (rule coherent_getManifest_result)
    fix os
    assume "backend (cache s) = FileStorage"
    then have "backend (cache (run E calls (reinit E s))) = FileStorage"
      by (simp add: backend_run reinit_def reint_fields)
    with c show "fst (getPlugins E os (run E calls (reinit E s)))
                          = plugins (run E calls (reinit E s))"
      by (rule coherent_getPlugins_result)
  qed
  from 1 2 3 4 5 6 7 show ?thesis by blast
qed

theorem reinit_atomic_witness:
  "backend (cache (demo_product True)) = FileStorage
   \<and> plugins (run demo_env [CRemovePlugin ''b'', CGetHooks] (reinit demo_env (demo_product True)))
       = [(''a'', plugin_a)]
   \<and> fst (getPlugins demo_env []
            (run demo_env [CRemovePlugin ''b'', CGetHooks] (reinit demo_env (demo_product True))))
       = [(''a'', plugin_a)]
   \<and> plain (fst (getManifest
            (run demo_env [CRemovePlugin ''b'', CGetHooks] (reinit demo_env (demo_product True)))))
       = composed [(''a'', plugin_a)]"
proof -
  have b: "backend (cache (demo_product True)) = FileStorage"
    by (simp add: demo_product_fields)
  have w: "world (reinit demo_env (demo_product True)) = [(''a'', plugin_a), (''b'', plugin_b)]"
    by (simp add: reinit_def reint_fields demo_product_fields)
  have p: "plugins (reinit demo_env (demo_product True)) = [(''a'', plugin_a), (''b'', plugin_b)]"
    by (simp add: reinit_def reint_fields demo_product_fields)
  have r: "plugins (run demo_env [CRemovePlugin ''b'', CGetHooks]
                      (reinit demo_env (demo_product True)))
       = [(''a'', plugin_a)]"
    by (simp add: run_def getHooks_frame removePlugin_def getPlugin_def p w Let_def reint_fields
        plugin_a_def plugin_b_def)
  show ?thesis
    using reinit_atomic [of demo_env "demo_product True"] b r by simp
qed

subsection \<open>Removing a plugin\<close>

text \<open>
  Claim C3. \<open>removePlugin(name)\<close> looks the bare name up by \<open>this.plugins[data.name]\<close>.
  When the collection has a plugin under the name, the call fails with Protected if the
  plugin's type is \<open>core\<close>, and otherwise calls the plugin's own removal, then
  reinitialises (the trace continues with the removal and then with the flush, the
  discovery and the manifest construction), and returns the plugin it removed. When the
  collection has no plugin under the name and the name is none that an ordinary object
  inherits, the call fails with NotFound. When the collection has no plugin under the name
  but the name is one of the members inherited from \<open>Object.prototype\<close>
  (\<open>constructor\<close>, \<open>toString\<close>, ...), the lookup finds that member, the test for
  an absent plugin passes, and the call fails with a TypeError at \<open>plugin.remove()\<close>
  instead of NotFound. In each of the three failures the state of the Product is the one
  before the call: the cache is untouched and nothing was flushed or recomputed.
\<close>

theorem removePlugin_outcomes:
  "(map_of (plugins s) (parse_package_name E name) = None
      \<and> parse_package_name E name \<notin> set object_prototype_members \<longrightarrow>
        removePlugin E name s = (Inl (NotFound name), s))
   \<and> (map_of (plugins s) (parse_package_name E name) = None
      \<and> parse_package_name E name \<in> set object_prototype_members \<longrightarrow>
        removePlugin E name s = (Inl (TypeError ''plugin.remove''), s))
   \<and> (\<forall>p. map_of (plugins s) (parse_package_name E name) = Some p \<and> ptype p = ''core'' \<longrightarrow>
          removePlugin E name s = (Inl (Protected (pname p)), s))
   \<and> (\<forall>p. map_of (plugins s) (parse_package_name E name) = Some p \<and> ptype p \<noteq> ''core'' \<longrightarrow>
          fst (removePlugin E name s) = Inr p
        \<and> snd (removePlugin E name s)
            = reint E (log (PluginRemove (pname p)) (s\<lparr>world := plugin_remove E p (world s)\<rparr>))
        \<and> world (snd (removePlugin E name s)) = plugin_remove E p (world s)
        \<and> trace (snd (removePlugin E name s))
            = trace s @ PluginRemove (pname p)
                # reint_events s (discovered E (s\<lparr>world := plugin_remove E p (world s)\<rparr>) [])
                    (next_oid s))"
proof (intro conjI allI impI)
  assume "map_of (plugins s) (parse_package_name E name) = None
      \<and> parse_package_name E name \<notin> set object_prototype_members"
  then show "removePlugin E name s = (Inl (NotFound name), s)"
    by (simp add: removePlugin_def getPlugin_def)
next
  assume "map_of (plugins s) (parse_package_name E name) = None
      \<and> parse_package_name E name \<in> set object_prototype_members"
  then show "removePlugin E name s = (Inl (TypeError ''plugin.remove''), s)"
    by (simp add: removePlugin_def getPlugin_def)
next
  fix p
  assume "map_of (plugins s) (parse_package_name E name) = Some p \<and> ptype p = ''core''"
  then show "removePlugin E name s = (Inl (Protected (pname p)), s)"
    by (simp add: removePlugin_def getPlugin_def)
next
  fix p
  assume a: "map_of (plugins s) (parse_package_name E name) = Some p \<and> ptype p \<noteq> ''core''"
  let ?s1 = "log (PluginRemove (pname p)) (s\<lparr>world := plugin_remove E p (world s)\<rparr>)"
  from a have r: "removePlugin E name s = (Inr p, reint E ?s1)"
    by (simp add: removePlugin_def getPlugin_def Let_def)
  from r show "fst (removePlugin E name s) = Inr p" by simp
  from r show "snd (removePlugin E name s) = reint E ?s1" by simp
  from r show "world (snd (removePlugin E name s)) = plugin_remove E p (world s)"
    by (simp add: reint_fields)
  have "reint_events ?s1 (discovered E ?s1 []) (next_oid ?s1)
      = reint_events s (discovered E (s\<lparr>world := plugin_remove E p (world s)\<rparr>) []) (next_oid s)"
    by (simp add: reint_events_def discovery_options_def)
  with r show "trace (snd (removePlugin E name s))
            = trace s @ PluginRemove (pname p)
                # reint_events s (discovered E (s\<lparr>world := plugin_remove E p (world s)\<rparr>) [])
                    (next_oid s)"
    by (simp add: reint_fields)
qed

theorem removePlugin_outcomes_witness:
  "removePlugin demo_env ''zzz'' (demo_product True) = (Inl (NotFound ''zzz''), demo_product True)
   \<and> map_of (plugins (demo_product True)) ''constructor'' = None
   \<and> removePlugin demo_env ''constructor'' (demo_product True)
       = (Inl (TypeError ''plugin.remove''), demo_product True)
   \<and> removePlugin demo_env ''a'' (demo_product True) = (Inl (Protected ''a''), demo_product True)
   \<and> fst (removePlugin demo_env ''b'' (demo_product True)) = Inr plugin_b
   \<and> world (snd (removePlugin demo_env ''b'' (demo_product True))) = [(''a'', plugin_a)]
   \<and> plugins (snd (removePlugin demo_env ''b'' (demo_product True))) = [(''a'', plugin_a)]
   \<and> CacheFlush \<in> set (trace (snd (removePlugin demo_env ''b'' (demo_product True))))"
proof -
  have none: "map_of (plugins (demo_product True)) (parse_package_name demo_env ''zzz'') = None
      \<and> parse_package_name demo_env ''zzz'' \<notin> set object_prototype_members"
    by (simp add: demo_product_fields object_prototype_members_def)
  have inh: "map_of (plugins (demo_product True)) (parse_package_name demo_env ''constructor'') = None
      \<and> parse_package_name demo_env ''constructor'' \<in> set object_prototype_members"
    by (simp add: demo_product_fields object_prototype_members_def)
  have core: "map_of (plugins (demo_product True)) (parse_package_name demo_env ''a'') = Some plugin_a
      \<and> ptype plugin_a = ''core''"
    by (simp add: demo_product_fields plugin_a_def)
  have glob: "map_of (plugins (demo_product True)) (parse_package_name demo_env ''b'') = Some plugin_b
      \<and> ptype plugin_b \<noteq> ''core''"
    by (simp add: demo_product_fields plugin_b_def)
  have pn: "pname plugin_a = ''a''" "pname plugin_b = ''b''"
    by (simp_all add: plugin_a_def plugin_b_def)
  have 1: "removePlugin demo_env ''zzz'' (demo_product True)
             = (Inl (NotFound ''zzz''), demo_product True)"
    using removePlugin_outcomes [THEN conjunct1, rule_format, OF none] .
  have 0: "map_of (plugins (demo_product True)) ''constructor'' = None"
    by (simp add: demo_product_fields)
  have 7: "removePlugin demo_env ''constructor'' (demo_product True)
             = (Inl (TypeError ''plugin.remove''), demo_product True)"
    using removePlugin_outcomes [THEN conjunct2, THEN conjunct1, rule_format, OF inh] .
  have 2: "removePlugin demo_env ''a'' (demo_product True)
             = (Inl (Protected ''a''), demo_product True)"
    using removePlugin_outcomes [THEN conjunct2, THEN conjunct2, THEN conjunct1, rule_format, OF core]
    by (simp only: pn)
  let ?r = "removePlugin demo_env ''b'' (demo_product True)"
  let ?s1 = "log (PluginRemove (pname plugin_b))
      ((demo_product True)\<lparr>world := plugin_remove demo_env plugin_b (world (demo_product True))\<rparr>)"
  note g = removePlugin_outcomes [THEN conjunct2, THEN conjunct2, THEN conjunct2, rule_format, OF glob]
  have 3: "fst ?r = Inr plugin_b"
    using g [THEN conjunct1] .
  have s: "snd ?r = reint demo_env ?s1"
    using g [THEN conjunct2, THEN conjunct1] .
  have w: "world (snd ?r) = plugin_remove demo_env plugin_b (world (demo_product True))"
    using g [THEN conjunct2, THEN conjunct2, THEN conjunct1] .
  from w have 4: "world (snd ?r) = [(''a'', plugin_a)]"
    by (simp add: demo_product_fields pn)
  have 5: "plugins (snd ?r) = [(''a'', plugin_a)]"
    unfolding s by (simp add: reint_fields demo_product_fields pn)
  have 6: "CacheFlush \<in> set (trace (snd ?r))"
    unfolding s by (simp add: reint_fields reint_events_def)
  from 1 0 7 2 3 4 5 6 show ?thesis by (intro conjI)
qed

subsection \<open>Adding a plugin\<close>

text \<open>
  Claim C4. In every call of \<open>addPlugin(name, dest)\<close> that reaches the fetch (the
  installer was resolved), a failure of the fetch is returned to the caller as it is, the
  cache store, the plugins and the manifest are the ones before the call, and the trace
  continues with the resolution and the fetch only: nothing is flushed, no
  reinitialisation is attempted. When the fetch succeeds the Product is reinitialised
  after it, and the fetched plugin is returned together with the reinitialised state.
\<close>

theorem addPlugin_fetch_outcomes:
  assumes inst: "getComponentInstance E ''core.plugin-installer'' (JObj []) no_opts s = (Inr installer, s1)"
    and fo: "fo = \<lparr>f_channel = cfg_get (config s) ''core.release-channel'',
                   f_installer = installer, f_type = ''global''\<rparr>"
    and dest': "dest' = (case dest of None \<Rightarrow> cfg_get (config s) ''plugin.global-install-dir''
                        | Some d \<Rightarrow> d)"
    and fetch: "plugin_fetch E name dest' fo (world s1) = (rf, w')"
  shows "(\<forall>e. rf = Inl e \<longrightarrow>
            fst (addPlugin E name dest s) = Inl e
          \<and> cache (snd (addPlugin E name dest s)) = cache s
          \<and> plugins (snd (addPlugin E name dest s)) = plugins s
          \<and> manifest (snd (addPlugin E name dest s)) = manifest s
          \<and> trace (snd (addPlugin E name dest s))
              = trace s @ [ResolveInstance (resolve_args ''core.plugin-installer'' (JObj []) no_opts s),
                           PluginFetch name dest' fo]
          \<and> CacheFlush \<notin> set (drop (length (trace s)) (trace (snd (addPlugin E name dest s)))))
       \<and> (\<forall>p. rf = Inr p \<longrightarrow>
            fst (addPlugin E name dest s) = Inr p
          \<and> snd (addPlugin E name dest s) = reint E (log (PluginFetch name dest' fo) (s1\<lparr>world := w'\<rparr>))
          \<and> trace (snd (addPlugin E name dest s))
              = trace s @ [ResolveInstance (resolve_args ''core.plugin-installer'' (JObj []) no_opts s),
                           PluginFetch name dest' fo]
                  @ reint_events s (discovered E (s\<lparr>world := w'\<rparr>) []) (next_oid s1))"
proof -
  have s1: "cache s1 = cache s" "plugins s1 = plugins s" "manifest s1 = manifest s"
    "config s1 = config s"
    "trace s1 = trace s @ [ResolveInstance (resolve_args ''core.plugin-installer'' (JObj []) no_opts s)]"
    using getComponentInstance_frame [of E "''core.plugin-installer''" "JObj []" no_opts s] inst
    by simp_all
  show ?thesis
  proof (intro conjI allI impI)
    fix e
    assume "rf = Inl e"
    then have r: "addPlugin E name dest s = (Inl e, log (PluginFetch name dest' fo) (s1\<lparr>world := w'\<rparr>))"
      using inst fetch [unfolded fo dest'] by (simp add: addPlugin_def Let_def fo dest')
    from r show "fst (addPlugin E name dest s) = Inl e" by simp
    from r show "cache (snd (addPlugin E name dest s)) = cache s" by (simp add: s1)
    from r show "plugins (snd (addPlugin E name dest s)) = plugins s" by (simp add: s1)
    from r show "manifest (snd (addPlugin E name dest s)) = manifest s" by (simp add: s1)
    from r show t: "trace (snd (addPlugin E name dest s))
              = trace s @ [ResolveInstance (resolve_args ''core.plugin-installer'' (JObj []) no_opts s),
                           PluginFetch name dest' fo]"
      by (simp add: s1)
    show "CacheFlush \<notin> set (drop (length (trace s)) (trace (snd (addPlugin E name dest s))))"
      unfolding t by simp
  next
    fix p
    assume "rf = Inr p"
    then have r: "addPlugin E name dest s
        = (Inr p, reint E (log (PluginFetch name dest' fo) (s1\<lparr>world := w'\<rparr>)))"
      using inst fetch [unfolded fo dest'] by (simp add: addPlugin_def Let_def fo dest')
    from r show "fst (addPlugin E name dest s) = Inr p" by simp
    from r show "snd (addPlugin E name dest s)
        = reint E (log (PluginFetch name dest' fo) (s1\<lparr>world := w'\<rparr>))" by simp
    have "discovered E (s1\<lparr>world := w'\<rparr>) [] = discovered E (s\<lparr>world := w'\<rparr>) []"
      by (simp add: discovered_def discovery_options_def s1)
    then show "trace (snd (addPlugin E name dest s))
              = trace s @ [ResolveInstance (resolve_args ''core.plugin-installer'' (JObj []) no_opts s),
                           PluginFetch name dest' fo]
                  @ reint_events s (discovered E (s\<lparr>world := w'\<rparr>) []) (next_oid s1)"
      unfolding r by (simp add: reint_fields s1 reint_events_def discovery_options_def)
  qed
qed

theorem addPlugin_fetch_outcomes_witness:
  "fst (addPlugin demo_env ''broken'' None (demo_product True)) = Inl (Rejected ''fetch failed'')
   \<and> cache (snd (addPlugin demo_env ''broken'' None (demo_product True))) = cache (demo_product True)
   \<and> CacheFlush \<notin> set (trace (snd (addPlugin demo_env ''broken'' None (demo_product True))))
   \<and> fst (addPlugin demo_env ''c'' None (demo_product True))
       = Inr \<lparr>pname = ''c'', ptype = ''global'', pmanifest = [(''name'', JStr ''c'')]\<rparr>
   \<and> map fst (plugins (snd (addPlugin demo_env ''c'' None (demo_product True)))) = [''a'', ''b'', ''c'']
   \<and> CacheFlush \<in> set (trace (snd (addPlugin demo_env ''c'' None (demo_product True))))"
proof -
  let ?s = "demo_product True"
  let ?s1 = "snd (getComponentInstance demo_env ''core.plugin-installer'' (JObj []) no_opts ?s)"
  let ?fo = "\<lparr>f_channel = cfg_get (config ?s) ''core.release-channel'',
             f_installer = demo_installer 1, f_type = ''global''\<rparr>"
  let ?dest = "case None of None \<Rightarrow> cfg_get (config ?s) ''plugin.global-install-dir'' | Some d \<Rightarrow> d"
  let ?c = "\<lparr>pname = ''c'', ptype = ''global'', pmanifest = [(''name'', JStr ''c'')]\<rparr>"
  have inst: "getComponentInstance demo_env ''core.plugin-installer'' (JObj []) no_opts ?s
                = (Inr (demo_installer 1), ?s1)"
    using demo_installer_resolved [of True] by (simp add: prod_eq_iff)
  have w1: "world ?s1 = [(''a'', plugin_a), (''b'', plugin_b)]"
    by (simp add: getComponentInstance_frame demo_product_fields)
  have bad: "plugin_fetch demo_env ''broken'' ?dest ?fo (world ?s1)
               = (Inl (Rejected ''fetch failed''), world ?s1)"
    by (simp add: demo_fetch)
  have good: "plugin_fetch demo_env ''c'' ?dest ?fo (world ?s1)
               = (Inr ?c, [(''a'', plugin_a), (''b'', plugin_b), (''c'', ?c)])"
    by (simp add: demo_fetch w1)
  note f = addPlugin_fetch_outcomes [OF inst refl refl bad, THEN conjunct1, rule_format, OF refl]
  note g = addPlugin_fetch_outcomes [OF inst refl refl good, THEN conjunct2, rule_format, OF refl]
  have 1: "fst (addPlugin demo_env ''broken'' None ?s) = Inl (Rejected ''fetch failed'')"
    using f [THEN conjunct1] .
  have 2: "cache (snd (addPlugin demo_env ''broken'' None ?s)) = cache ?s"
    using f [THEN conjunct2, THEN conjunct1] .
  have t: "trace (snd (addPlugin demo_env ''broken'' None ?s))
      = trace ?s @ [ResolveInstance (resolve_args ''core.plugin-installer'' (JObj []) no_opts ?s),
                    PluginFetch ''broken'' ?dest ?fo]"
    using f [THEN conjunct2, THEN conjunct2, THEN conjunct2, THEN conjunct2, THEN conjunct1] .
  have 3: "CacheFlush \<notin> set (trace (snd (addPlugin demo_env ''broken'' None ?s)))"
    unfolding t by (simp add: demo_product_trace)
  have 4: "fst (addPlugin demo_env ''c'' None ?s) = Inr ?c"
    using g [THEN conjunct1] .
  have s: "snd (addPlugin demo_env ''c'' None ?s)
      = reint demo_env (log (PluginFetch ''c'' ?dest ?fo)
          (?s1\<lparr>world := [(''a'', plugin_a), (''b'', plugin_b), (''c'', ?c)]\<rparr>))"
    using g [THEN conjunct2, THEN conjunct1] .
  have 5: "map fst (plugins (snd (addPlugin demo_env ''c'' None ?s))) = [''a'', ''b'', ''c'']"
    unfolding s by (simp add: reint_fields)
  have 6: "CacheFlush \<in> set (trace (snd (addPlugin demo_env ''c'' None ?s)))"
    unfolding s by (simp add: reint_fields reint_events_def)
  from 1 2 3 4 5 6 show ?thesis by (intro conjI)
qed

subsection \<open>Idempotence of getPlugins\<close>

text \<open>
  Claim C5, as amended. On a Product whose cache store retains what is set (caching is
  on), two calls of \<open>getPlugins\<close> with no reinitialisation between them return the
  same enabled collection, the second call changes nothing, and discovery runs at most
  once in the two calls; when the first call finds nothing cached it returns the enabled
  collection of the discovery and the cache then holds the three collections under
  \<open>plugins.enabled\<close>, \<open>plugins.disabled\<close> and \<open>plugins.invalid\<close>.
\<close>

theorem getPlugins_cached_once:
  assumes fs: "backend (cache s) = FileStorage"
  shows "fst (getPlugins E os2 (snd (getPlugins E os1 s))) = fst (getPlugins E os1 s)
       \<and> snd (getPlugins E os2 (snd (getPlugins E os1 s))) = snd (getPlugins E os1 s)
       \<and> discoveries (trace (snd (getPlugins E os2 (snd (getPlugins E os1 s)))))
            \<le> discoveries (trace s) + 1
       \<and> (\<not> cache_has (cache s) ''plugins.enabled'' \<longrightarrow>
             fst (getPlugins E os1 s) = enabled (discovered E s os1)
           \<and> cache_get (cache (snd (getPlugins E os1 s))) ''plugins.enabled''
               = Some (VPlugins (enabled (discovered E s os1)))
           \<and> cache_get (cache (snd (getPlugins E os1 s))) ''plugins.disabled''
               = Some (VPlugins (disabled (discovered E s os1)))
           \<and> cache_get (cache (snd (getPlugins E os1 s))) ''plugins.invalid''
               = Some (VPlugins (invalids (discovered E s os1))))"
proof (cases "cache_has (cache s) ''plugins.enabled''")
  case True
  then show ?thesis by (simp add: getPlugins_hit)
next
  case False
  let ?d = "discovered E s os1"
  let ?s1 = "snd (getPlugins E os1 s)"
  from False have first: "fst (getPlugins E os1 s) = enabled ?d"
    by (simp add: getPlugins_miss)
  from False fs have c: "cache_get (cache ?s1) ''plugins.enabled'' = Some (VPlugins (enabled ?d))"
    "cache_get (cache ?s1) ''plugins.disabled'' = Some (VPlugins (disabled ?d))"
    "cache_get (cache ?s1) ''plugins.invalid'' = Some (VPlugins (invalids ?d))"
    by (simp_all add: getPlugins_miss cache_get_set)
  then have hit: "cache_has (cache ?s1) ''plugins.enabled''"
    by (simp add: cache_has_get)
  have second: "getPlugins E os2 ?s1 = (enabled ?d, ?s1)"
    using getPlugins_hit [OF hit] c by simp
  from False have "discoveries (trace ?s1) = discoveries (trace s) + 1"
    by (simp add: getPlugins_miss)
  with first second c False show ?thesis by simp
qed

theorem getPlugins_cached_once_witness:
  "backend (cache (demo_product True)) = FileStorage
   \<and> fst (getPlugins demo_env [] (snd (getPlugins demo_env [] (demo_product True))))
       = [(''a'', plugin_a), (''b'', plugin_b)]
   \<and> fst (getPlugins demo_env [] (demo_product True)) = [(''a'', plugin_a), (''b'', plugin_b)]
   \<and> discoveries (trace (demo_product True)) = 1
   \<and> discoveries (trace (snd (getPlugins demo_env [] (snd (getPlugins demo_env [] (demo_product True)))))) \<le> 2
   \<and> \<not> cache_has (cache_flush (cache (demo_product True))) ''plugins.enabled''
   \<and> cache_get (cache (snd (getPlugins demo_env []
          ((demo_product True)\<lparr>cache := cache_flush (cache (demo_product True))\<rparr>)))) ''plugins.enabled''
       = Some (VPlugins [(''a'', plugin_a), (''b'', plugin_b)])
   \<and> cache_get (cache (snd (getPlugins demo_env []
          ((demo_product True)\<lparr>cache := cache_flush (cache (demo_product True))\<rparr>)))) ''plugins.disabled''
       = Some (VPlugins [])
   \<and> cache_get (cache (snd (getPlugins demo_env []
          ((demo_product True)\<lparr>cache := cache_flush (cache (demo_product True))\<rparr>)))) ''plugins.invalid''
       = Some (VPlugins [])"
proof -
  let ?s = "demo_product True"
  let ?f = "?s\<lparr>cache := cache_flush (cache ?s)\<rparr>"
  have b: "backend (cache ?s) = FileStorage" by (simp add: demo_product_fields)
  have bf: "backend (cache ?f) = FileStorage" by (simp add: demo_product_fields)
  have miss: "\<not> cache_has (cache ?f) ''plugins.enabled''" by simp
  have hit: "cache_has (cache ?s) ''plugins.enabled''"
    by (simp add: demo_product_cache cache_has_def)
  have first: "fst (getPlugins demo_env [] ?s) = [(''a'', plugin_a), (''b'', plugin_b)]"
    by (simp add: getPlugins_hit [OF hit] demo_product_cache cache_get_def)
  note t = getPlugins_cached_once [OF b, of demo_env "[]" "[]"]
  note u = getPlugins_cached_once [OF bf, of demo_env "[]" "[]", THEN conjunct2, THEN conjunct2,
      THEN conjunct2, rule_format, OF miss]
  have 1: "fst (getPlugins demo_env [] (snd (getPlugins demo_env [] ?s)))
       = [(''a'', plugin_a), (''b'', plugin_b)]"
    using t [THEN conjunct1] first by simp
  have 2: "discoveries (trace (snd (getPlugins demo_env [] (snd (getPlugins demo_env [] ?s))))) \<le> 2"
    using t [THEN conjunct2, THEN conjunct2, THEN conjunct1] by (simp add: demo_product_trace)
  have 3: "cache_get (cache (snd (getPlugins demo_env [] ?f))) ''plugins.enabled''
       = Some (VPlugins [(''a'', plugin_a), (''b'', plugin_b)])"
    using u [THEN conjunct2, THEN conjunct1] by (simp add: demo_product_fields)
  have 4: "cache_get (cache (snd (getPlugins demo_env [] ?f))) ''plugins.disabled'' = Some (VPlugins [])"
    using u [THEN conjunct2, THEN conjunct2, THEN conjunct1] by simp
  have 5: "cache_get (cache (snd (getPlugins demo_env [] ?f))) ''plugins.invalid'' = Some (VPlugins [])"
    using u [THEN conjunct2, THEN conjunct2, THEN conjunct2] by simp
  have 6: "discoveries (trace ?s) = 1" by (simp add: demo_product_trace)
  have 7: "\<not> cache_has (cache_flush (cache ?s)) ''plugins.enabled''" by simp
  from b 1 first 6 2 7 3 4 5 show ?thesis by (intro conjI)
qed

text \<open>
  Claim C5 as it is stated fails on a Product constructed with caching off: the no-op
  store has nothing after the first call, and each of the two calls runs discovery again
  (one discovery by the constructor, three after the two calls).
\<close>

theorem getPlugins_no_storage_counterexample:
  "backend (cache (demo_product False)) = NoStorage
   \<and> discoveries (trace (demo_product False)) = 1
   \<and> discoveries (trace (snd (getPlugins demo_env [] (demo_product False)))) = 2
   \<and> \<not> cache_has (cache (snd (getPlugins demo_env [] (demo_product False)))) ''plugins.enabled''
   \<and> cache_get (cache (snd (getPlugins demo_env [] (demo_product False)))) ''plugins.enabled'' = None
   \<and> discoveries (trace (snd (getPlugins demo_env []
          (snd (getPlugins demo_env [] (demo_product False)))))) = 3"
proof -
  let ?s = "demo_product False"
  have b: "backend (cache ?s) = NoStorage" by (simp add: demo_product_fields)
  then have m: "\<not> cache_has (cache ?s) ''plugins.enabled''" by simp
  let ?s1 = "snd (getPlugins demo_env [] ?s)"
  have b1: "backend (cache ?s1) = NoStorage" using b by (simp add: getPlugins_frame)
  then have m1: "\<not> cache_has (cache ?s1) ''plugins.enabled''" by simp
  have g1: "cache_get (cache ?s1) ''plugins.enabled'' = None"
    using b1 by (simp add: cache_get_def)
  have d1: "discoveries (trace ?s1) = 2"
    by (simp add: getPlugins_miss [OF m] demo_product_trace)
  have d2: "discoveries (trace (snd (getPlugins demo_env [] ?s1))) = 3"
    by (simp add: getPlugins_miss [OF m1] d1)
  have d0: "discoveries (trace ?s) = 1" by (simp add: demo_product_trace)
  from b d0 d1 m1 g1 d2 show ?thesis by (intro conjI)
qed

subsection \<open>Field stripping\<close>

text \<open>
  Claim C6. Whatever the enabled plugins and their fragments are, no entry of the manifest
  that \<open>getManifest\<close> composes has one of the keys \<open>name\<close>, \<open>description\<close>,
  \<open>enabled\<close>, \<open>hidden\<close> among the fields of its store: the four fields are deleted
  from the copy of each fragment before the copy is added. This holds for the manifest
  built from any plugin collection, and for what \<open>getManifest()\<close> returns when it
  builds (nothing is cached) and when it revives the cached manifest of the current
  plugins.
\<close>

theorem getManifest_strips_fields:
  "(\<forall>ne \<in> set (stores (composed ps)).
       \<forall>k \<in> set stripped_fields. map_of (store (snd ne)) k = None)
   \<and> (\<not> cache_has (cache s) ''manifest'' \<or> coherent s \<longrightarrow>
        (\<forall>ne \<in> set (stores (plain (fst (getManifest s)))).
            \<forall>k \<in> set stripped_fields. map_of (store (snd ne)) k = None))"
proof -
  have built: "\<And>qs ne k. ne \<in> set (stores (composed qs)) \<Longrightarrow> k \<in> set stripped_fields \<Longrightarrow>
      map_of (store (snd ne)) k = None"
  proof -
    fix qs ne k
    assume "ne \<in> set (stores (composed qs))" and k: "k \<in> set stripped_fields"
    then have "ne \<in> literal_of ` set qs" using stores_composed_subset by blast
    then obtain np where "ne = literal_of np" by auto
    with k show "map_of (store (snd ne)) k = None"
      by (simp add: literal_of_def sanitise_stripped)
  qed
  show ?thesis
  proof (intro conjI impI ballI)
    fix ne k
    assume "ne \<in> set (stores (composed ps))" and "k \<in> set stripped_fields"
    then show "map_of (store (snd ne)) k = None" by (rule built)
  next
    fix ne k
    assume "\<not> cache_has (cache s) ''manifest'' \<or> coherent s"
      and ne: "ne \<in> set (stores (plain (fst (getManifest s))))"
      and k: "k \<in> set stripped_fields"
    then have "ne \<in> set (stores (composed (plugins s)))"
      by (simp add: getManifest_plain)
    then show "map_of (store (snd ne)) k = None" using k by (rule built)
  qed
qed

theorem getManifest_strips_fields_witness:
  "\<not> cache_has (cache (demo_product False)) ''manifest''
   \<and> map fst (stores (plain (fst (getManifest (demo_product False))))) = [''b'', ''a'']
   \<and> list_all (\<lambda>ne. list_all (\<lambda>k. map_of (store (snd ne)) k = None) stripped_fields)
         (stores (plain (fst (getManifest (demo_product False)))))
   \<and> cache_has (cache (demo_product True)) ''manifest''
   \<and> coherent (demo_product True)
   \<and> map fst (stores (plain (fst (getManifest (demo_product True))))) = [''b'', ''a'']
   \<and> list_all (\<lambda>ne. list_all (\<lambda>k. map_of (store (snd ne)) k = None) stripped_fields)
         (stores (plain (fst (getManifest (demo_product True)))))"
proof -
  have miss: "\<not> cache_has (cache (demo_product False)) ''manifest''"
    by (simp add: demo_product_cache cache_has_def)
  have hit: "cache_has (cache (demo_product True)) ''manifest''"
    by (simp add: demo_product_cache cache_has_def)
  have co: "coherent (demo_product True)"
    using coherent_demo_product [of "[]" True] by (simp add: run_def)
  have n1: "map fst (stores (plain (fst (getManifest (demo_product False))))) = [''b'', ''a'']"
    using miss by (simp add: getManifest_plain demo_product_fields demo_composed)
  have n2: "map fst (stores (plain (fst (getManifest (demo_product True))))) = [''b'', ''a'']"
    using co by (simp add: getManifest_plain demo_product_fields demo_composed)
  note a = getManifest_strips_fields [of "[]" "demo_product False", THEN conjunct2, rule_format,
      OF disjI1, OF miss]
  note b = getManifest_strips_fields [of "[]" "demo_product True", THEN conjunct2, rule_format,
      OF disjI2, OF co]
  have s1: "list_all (\<lambda>ne. list_all (\<lambda>k. map_of (store (snd ne)) k = None) stripped_fields)
         (stores (plain (fst (getManifest (demo_product False)))))"
    using a by (simp add: list_all_iff)
  have s2: "list_all (\<lambda>ne. list_all (\<lambda>k. map_of (store (snd ne)) k = None) stripped_fields)
         (stores (plain (fst (getManifest (demo_product True)))))"
    using b by (simp add: list_all_iff)
  from miss n1 s1 hit co n2 s2 show ?thesis by (intro conjI)
qed

subsection \<open>What getManifest caches and returns\<close>

text \<open>
  Claim C7, as amended. On a cache hit \<open>getManifest()\<close> returns a newly constructed
  Config around the cached plain form and writes nothing. On a miss it builds the
  manifest from the current plugins, hands that live object to the cache store and returns
  that same object: no second wrapper is made. A store that retains what is set keeps
  the plain serialisable form of the object, so a following call returns a new wrapper
  with the same content; the no-op store keeps nothing. In both cases the returned object
  is a new one: two successive calls return objects of different identity.
\<close>

theorem getManifest_wrapper:
  "(cache_has (cache s) ''manifest'' \<longrightarrow>
       fst (getManifest s)
         = Config_new (next_oid s) (as_plain (cache_get (cache s) ''manifest''))
     \<and> cache (snd (getManifest s)) = cache s
     \<and> trace (snd (getManifest s)) = trace s)
   \<and> (\<not> cache_has (cache s) ''manifest'' \<longrightarrow>
       plain (fst (getManifest s)) = composed (plugins s)
     \<and> trace (snd (getManifest s))
         = trace s @ [Debug ''running %o manifest construction...'',
                      CacheSet ''manifest'' (VConfig (fst (getManifest s)))]
     \<and> (backend (cache s) = FileStorage \<longrightarrow>
          cache_get (cache (snd (getManifest s))) ''manifest''
            = Some (VPlain (plain (fst (getManifest s)))))
     \<and> (backend (cache s) = NoStorage \<longrightarrow> cache (snd (getManifest s)) = cache s))
   \<and> (backend (cache s) = FileStorage \<longrightarrow>
       plain (fst (getManifest (snd (getManifest s)))) = plain (fst (getManifest s)))
   \<and> oid (fst (getManifest s)) = next_oid s
   \<and> next_oid (snd (getManifest s)) = Suc (next_oid s)
   \<and> oid (fst (getManifest (snd (getManifest s)))) = Suc (oid (fst (getManifest s)))"
proof -
  have o: "\<And>t. oid (fst (getManifest t)) = next_oid t"
    by (simp add: getManifest_def Let_def Config_new_def)
  have n: "\<And>t. next_oid (snd (getManifest t)) = Suc (next_oid t)"
    by (simp add: getManifest_def Let_def)
  have 1: "cache_has (cache s) ''manifest'' \<longrightarrow>
       fst (getManifest s)
         = Config_new (next_oid s) (as_plain (cache_get (cache s) ''manifest''))
     \<and> cache (snd (getManifest s)) = cache s
     \<and> trace (snd (getManifest s)) = trace s"
    by (simp add: getManifest_hit)
  have 2: "\<not> cache_has (cache s) ''manifest'' \<longrightarrow>
       plain (fst (getManifest s)) = composed (plugins s)
     \<and> trace (snd (getManifest s))
         = trace s @ [Debug ''running %o manifest construction...'',
                      CacheSet ''manifest'' (VConfig (fst (getManifest s)))]
     \<and> (backend (cache s) = FileStorage \<longrightarrow>
          cache_get (cache (snd (getManifest s))) ''manifest''
            = Some (VPlain (plain (fst (getManifest s)))))
     \<and> (backend (cache s) = NoStorage \<longrightarrow> cache (snd (getManifest s)) = cache s)"
    by (simp add: getManifest_miss' cache_get_set Config_new_def)
  have 3: "backend (cache s) = FileStorage \<longrightarrow>
       plain (fst (getManifest (snd (getManifest s)))) = plain (fst (getManifest s))"
  proof (cases "cache_has (cache s) ''manifest''")
    case True
    then show ?thesis by (simp add: getManifest_hit Config_new_def)
  next
    case False
    show ?thesis
    proof
      assume fs: "backend (cache s) = FileStorage"
      with False have hit: "cache_has (cache (snd (getManifest s))) ''manifest''"
        by (simp add: getManifest_miss' cache_has_set)
      from False fs show "plain (fst (getManifest (snd (getManifest s)))) = plain (fst (getManifest s))"
        unfolding getManifest_hit [OF hit]
        by (simp add: getManifest_miss' cache_get_set Config_new_def)
    qed
  qed
  have 4: "oid (fst (getManifest s)) = next_oid s" by (rule o)
  have 5: "next_oid (snd (getManifest s)) = Suc (next_oid s)" by (rule n)
  have 6: "oid (fst (getManifest (snd (getManifest s)))) = Suc (oid (fst (getManifest s)))"
    by (simp add: o n)
  from 1 2 3 4 5 6 show ?thesis by (intro conjI)
qed

theorem getManifest_wrapper_witness:
  "cache_has (cache (demo_product True)) ''manifest''
   \<and> oid (manifest (demo_product True)) = 0
   \<and> fst (getManifest (demo_product True))
       = Config_new 1 (composed [(''a'', plugin_a), (''b'', plugin_b)])
   \<and> \<not> cache_has (cache ((demo_product True)\<lparr>cache := cache_flush (cache (demo_product True))\<rparr>))
         ''manifest''
   \<and> backend (cache ((demo_product True)\<lparr>cache := cache_flush (cache (demo_product True))\<rparr>))
       = FileStorage
   \<and> cache_get (cache (snd (getManifest
          ((demo_product True)\<lparr>cache := cache_flush (cache (demo_product True))\<rparr>)))) ''manifest''
       = Some (VPlain (composed [(''a'', plugin_a), (''b'', plugin_b)]))
   \<and> backend (cache (demo_product False)) = NoStorage
   \<and> \<not> cache_has (cache (demo_product False)) ''manifest''
   \<and> cache (snd (getManifest (demo_product False))) = cache (demo_product False)"
proof -
  let ?s = "demo_product True" and ?n = "demo_product False"
  let ?f = "?s\<lparr>cache := cache_flush (cache ?s)\<rparr>"
  have hit: "cache_has (cache ?s) ''manifest''"
    by (simp add: demo_product_cache cache_has_def)
  have 0: "oid (manifest ?s) = 0" by (simp add: demo_product_fields Config_new_def)
  have miss: "\<not> cache_has (cache ?f) ''manifest''" by simp
  have bf: "backend (cache ?f) = FileStorage" by (simp add: demo_product_fields)
  have bn: "backend (cache ?n) = NoStorage" by (simp add: demo_product_fields)
  then have missn: "\<not> cache_has (cache ?n) ''manifest''" by simp
  have 1: "fst (getManifest ?s) = Config_new 1 (composed [(''a'', plugin_a), (''b'', plugin_b)])"
    using getManifest_wrapper [of ?s, THEN conjunct1, rule_format, OF hit, THEN conjunct1]
    by (simp add: demo_product_fields demo_product_cache cache_get_def)
  note m = getManifest_wrapper [of ?f, THEN conjunct2, THEN conjunct1, rule_format, OF miss]
  have 2: "cache_get (cache (snd (getManifest ?f))) ''manifest''
       = Some (VPlain (composed [(''a'', plugin_a), (''b'', plugin_b)]))"
    using m [THEN conjunct2, THEN conjunct2, THEN conjunct1, rule_format, OF bf] m [THEN conjunct1]
    by (simp add: demo_product_fields)
  note k = getManifest_wrapper [of ?n, THEN conjunct2, THEN conjunct1, rule_format, OF missn]
  have 3: "cache (snd (getManifest ?n)) = cache ?n"
    using k [THEN conjunct2, THEN conjunct2, THEN conjunct2, rule_format, OF bn] .
  from hit 0 1 miss bf 2 bn missn 3 show ?thesis by (intro conjI)
qed

text \<open>
  Claim C7 as it is stated fails on a Product constructed with caching off: after the
  call the store has no entry \<open>manifest\<close>, in any form, and what the call returns is
  the object it built and handed to the store. It also fails on the build path of a
  Product with caching on (here right after a flush): the store receives the live object
  and the call returns that very object, of the same identity, not a wrapper made around
  the cached form.
\<close>

theorem getManifest_no_storage_counterexample:
  "backend (cache (demo_product False)) = NoStorage
   \<and> \<not> cache_has (cache (snd (getManifest (demo_product False)))) ''manifest''
   \<and> cache_get (cache (snd (getManifest (demo_product False)))) ''manifest'' = None
   \<and> fst (getManifest (demo_product False))
       = Config_new 1 (composed [(''a'', plugin_a), (''b'', plugin_b)])
   \<and> last (trace (snd (getManifest (demo_product False))))
       = CacheSet ''manifest''
           (VConfig (Config_new 1 (composed [(''a'', plugin_a), (''b'', plugin_b)])))
   \<and> backend (cache ((demo_product True)\<lparr>cache := cache_flush (cache (demo_product True))\<rparr>))
       = FileStorage
   \<and> fst (getManifest ((demo_product True)\<lparr>cache := cache_flush (cache (demo_product True))\<rparr>))
       = Config_new 1 (composed [(''a'', plugin_a), (''b'', plugin_b)])
   \<and> last (trace (snd (getManifest
          ((demo_product True)\<lparr>cache := cache_flush (cache (demo_product True))\<rparr>))))
       = CacheSet ''manifest''
           (VConfig (Config_new 1 (composed [(''a'', plugin_a), (''b'', plugin_b)])))"
proof -
  let ?n = "demo_product False"
  let ?f = "(demo_product True)\<lparr>cache := cache_flush (cache (demo_product True))\<rparr>"
  have bn: "backend (cache ?n) = NoStorage" by (simp add: demo_product_fields)
  then have miss: "\<not> cache_has (cache ?n) ''manifest''" by simp
  have b1: "backend (cache (snd (getManifest ?n))) = NoStorage"
    using bn by (simp add: getManifest_frame)
  then have 1: "\<not> cache_has (cache (snd (getManifest ?n))) ''manifest''" by simp
  have 2: "cache_get (cache (snd (getManifest ?n))) ''manifest'' = None"
    using b1 by (simp add: cache_get_def)
  have 3: "fst (getManifest ?n) = Config_new 1 (composed [(''a'', plugin_a), (''b'', plugin_b)])"
    by (simp add: getManifest_miss' [OF miss] demo_product_fields)
  have 4: "last (trace (snd (getManifest ?n)))
       = CacheSet ''manifest''
           (VConfig (Config_new 1 (composed [(''a'', plugin_a), (''b'', plugin_b)])))"
    by (simp add: getManifest_miss' [OF miss] demo_product_fields)
  have bf: "backend (cache ?f) = FileStorage" by (simp add: demo_product_fields)
  have missf: "\<not> cache_has (cache ?f) ''manifest''" by simp
  have 5: "fst (getManifest ?f) = Config_new 1 (composed [(''a'', plugin_a), (''b'', plugin_b)])"
    by (simp add: getManifest_miss' [OF missf] demo_product_fields)
  have 6: "last (trace (snd (getManifest ?f)))
       = CacheSet ''manifest''
           (VConfig (Config_new 1 (composed [(''a'', plugin_a), (''b'', plugin_b)])))"
    by (simp add: getManifest_miss' [OF missf] demo_product_fields)
  from bn 1 2 3 4 bf 5 6 show ?thesis by (intro conjI)
qed

subsection \<open>Running a hook\<close>

text \<open>
  Claim C8. \<open>runHook(event, data)\<close> passes to the hook routine the event name, the
  payload, a context that has the Product under its id and under \<open>product\<close>, the
  logger, and as hooks the property \<open>this.hooks\<close>. No method assigns that property:
  after the constructor and any sequence of public calls it is \<open>undefined\<close>, and
  that is what the routine receives, while \<open>getHooks()\<close> returns the empty list.
\<close>

theorem runHook_hooks_never_assigned:
  "trace (snd (runHook E event data s))
     = trace s @ [RunHook \<lparr>hc_event = event, hc_data = data, hc_hooks = hooks s,
                           hc_context = AList.update ''product'' This [(pid s, This)],
                           hc_logger = debug_ns s\<rparr>]
   \<and> map_of (hc_context (hook_args event data s)) (pid s) = Some This
   \<and> map_of (hc_context (hook_args event data s)) ''product'' = Some This
   \<and> hooks (run E calls (construct E cfg dbg disk w)) = None
   \<and> hc_hooks (hook_args event data (run E calls (construct E cfg dbg disk w))) = None
   \<and> fst (getHooks (run E calls (construct E cfg dbg None w))) = []"
proof -
  have "fst (getHooks (run E calls (construct E cfg dbg None w))) = []"
    using hooks_clean_run [OF hooks_clean_construct, of E calls E cfg dbg w]
    by (simp add: getHooks_def hooks_clean_def Let_def)
  then show ?thesis
    by (simp add: runHook_frame hook_args_def hooks_run construct_hooks AList.update_conv')
qed

subsection \<open>Component instances and cache scopes\<close>



subsection \<open>Hooks\<close>

text \<open>
  Claim C10, as amended. In every state whose cache entry \<open>hooks\<close>, if there is one,
  is the list \<open>getHooks\<close> wrote (the constructed Product and every state reached from
  it by public calls), \<open>getHooks()\<close> returns the empty list, whatever the enabled
  plugins and their manifests are; a call that finds nothing cached logs the discovery and
  hands the empty list to the cache under the key \<open>hooks\<close>. When the cache store
  retains what is set, the entry is then the empty list, and every later call before the
  next flush returns it and changes nothing.
\<close>

theorem getHooks_empty_and_cached:
  assumes clean: "hooks_clean s"
  shows "fst (getHooks s) = []
       \<and> (\<forall>calls. fst (getHooks (run E calls s)) = [])
       \<and> (\<not> cache_has (cache s) ''hooks'' \<longrightarrow>
            trace (snd (getHooks s))
              = trace s @ [Debug ''running %o hooks discovery...'', CacheSet ''hooks'' (VHooks [])])
       \<and> (backend (cache s) = FileStorage \<longrightarrow>
            cache_get (cache (snd (getHooks s))) ''hooks'' = Some (VHooks [])
          \<and> (\<forall>calls. list_all (\<lambda>c. \<not> flushes c) calls \<longrightarrow>
                 getHooks (run E calls (snd (getHooks s))) = ([], run E calls (snd (getHooks s)))))"
proof -
  have empty: "\<And>t. hooks_clean t \<Longrightarrow> fst (getHooks t) = []"
    by (simp add: getHooks_def hooks_clean_def Let_def)
  have 1: "fst (getHooks s) = []" using clean by (rule empty)
  have 2: "\<forall>calls. fst (getHooks (run E calls s)) = []"
    using clean by (simp add: empty hooks_clean_run)
  have 3: "\<not> cache_has (cache s) ''hooks'' \<longrightarrow>
            trace (snd (getHooks s))
              = trace s @ [Debug ''running %o hooks discovery...'', CacheSet ''hooks'' (VHooks [])]"
    by (simp add: getHooks_miss)
  have 4: "backend (cache s) = FileStorage \<longrightarrow>
            cache_get (cache (snd (getHooks s))) ''hooks'' = Some (VHooks [])
          \<and> (\<forall>calls. list_all (\<lambda>c. \<not> flushes c) calls \<longrightarrow>
                 getHooks (run E calls (snd (getHooks s))) = ([], run E calls (snd (getHooks s))))"
  proof (intro impI conjI allI)
    assume fs: "backend (cache s) = FileStorage"
    show e: "cache_get (cache (snd (getHooks s))) ''hooks'' = Some (VHooks [])"
    proof (cases "cache_has (cache s) ''hooks''")
      case True
      with clean show ?thesis by (simp add: getHooks_hit hooks_clean_def)
    next
      case False
      with fs show ?thesis by (simp add: getHooks_miss cache_get_set)
    qed
    fix calls
    assume "list_all (\<lambda>c. \<not> flushes c) calls"
    then have "cache_get (cache (run E calls (snd (getHooks s)))) ''hooks'' = Some (VHooks [])"
      using e by (rule hooks_entry_run)
    then show "getHooks (run E calls (snd (getHooks s))) = ([], run E calls (snd (getHooks s)))"
      by (simp add: getHooks_hit cache_has_get)
  qed
  from 1 2 3 4 show ?thesis by (intro conjI)
qed

theorem getHooks_empty_and_cached_witness:
  "\<not> cache_has (cache (demo_product True)) ''hooks''
   \<and> backend (cache (demo_product True)) = FileStorage
   \<and> fst (getHooks (demo_product True)) = []
   \<and> fst (getHooks (run demo_env [CRemovePlugin ''b''] (demo_product True))) = []
   \<and> cache_get (cache (snd (getHooks (demo_product True)))) ''hooks'' = Some (VHooks [])
   \<and> getHooks (run demo_env [CGetPlugins [], CGetHooks] (snd (getHooks (demo_product True))))
       = ([], run demo_env [CGetPlugins [], CGetHooks] (snd (getHooks (demo_product True))))"
proof -
  let ?s = "demo_product True"
  have c: "hooks_clean ?s"
    unfolding demo_product_def by (rule hooks_clean_construct)
  have m: "\<not> cache_has (cache ?s) ''hooks''"
    by (simp add: demo_product_cache cache_has_def)
  have b: "backend (cache ?s) = FileStorage" by (simp add: demo_product_fields)
  have l: "list_all (\<lambda>c. \<not> flushes c) [CGetPlugins [], CGetHooks]" by simp
  note t = getHooks_empty_and_cached [OF c, of demo_env]
  note u = t [THEN conjunct2, THEN conjunct2, THEN conjunct2, rule_format, OF b]
  from m b t [THEN conjunct1] t [THEN conjunct2, THEN conjunct1, rule_format]
    u [THEN conjunct1] u [THEN conjunct2, rule_format, OF l]
  show ?thesis by (intro conjI)
qed

text \<open>
  Claim C10 as it is stated fails on a Product constructed with caching off: the no-op
  store has no entry \<open>hooks\<close> after the call, and the next call runs the discovery
  again.
\<close>

theorem getHooks_no_storage_counterexample:
  "backend (cache (demo_product False)) = NoStorage
   \<and> fst (getHooks (demo_product False)) = []
   \<and> \<not> cache_has (cache (snd (getHooks (demo_product False)))) ''hooks''
   \<and> trace (snd (getHooks (snd (getHooks (demo_product False)))))
       = trace (demo_product False)
         @ [Debug ''running %o hooks discovery...'', CacheSet ''hooks'' (VHooks []),
            Debug ''running %o hooks discovery...'', CacheSet ''hooks'' (VHooks [])]"
proof -
  let ?s = "demo_product False"
  have b: "backend (cache ?s) = NoStorage" by (simp add: demo_product_fields)
  then have m: "\<not> cache_has (cache ?s) ''hooks''" by simp
  let ?s1 = "snd (getHooks ?s)"
  have b1: "backend (cache ?s1) = NoStorage" using b by (simp add: getHooks_frame)
  then have m1: "\<not> cache_has (cache ?s1) ''hooks''" by simp
  have e: "fst (getHooks ?s) = []" by (simp add: getHooks_miss [OF m])
  have t: "trace (snd (getHooks ?s1))
       = trace ?s @ [Debug ''running %o hooks discovery...'', CacheSet ''hooks'' (VHooks []),
            Debug ''running %o hooks discovery...'', CacheSet ''hooks'' (VHooks [])]"
    by (simp add: getHooks_miss [OF m1]) (simp add: getHooks_miss [OF m])
  from b e m1 t show ?thesis by (intro conjI)
qed

subsection \<open>Further properties of the code\<close>

text \<open>
  When the installer component cannot be resolved, \<open>addPlugin\<close> fails with that error
  before \<open>Plugin.fetch\<close> is called: the world, the cache, the plugins and the manifest
  are unchanged and the trace continues with the resolution only.
\<close>

theorem addPlugin_installer_failure:
  assumes "getComponentInstance E ''core.plugin-installer'' (JObj []) no_opts s = (Inl e, s1)"
  shows "addPlugin E name dest s = (Inl e, s1)
       \<and> cache s1 = cache s \<and> plugins s1 = plugins s \<and> manifest s1 = manifest s
       \<and> world s1 = world s
       \<and> trace s1
           = trace s @ [ResolveInstance (resolve_args ''core.plugin-installer'' (JObj []) no_opts s)]"
proof -
  have "addPlugin E name dest s = (Inl e, s1)"
    using assms by (simp add: addPlugin_def Let_def)
  moreover have "cache s1 = cache s" "plugins s1 = plugins s" "manifest s1 = manifest s"
    "world s1 = world s"
    "trace s1 = trace s @ [ResolveInstance (resolve_args ''core.plugin-installer'' (JObj []) no_opts s)]"
    using getComponentInstance_frame [of E "''core.plugin-installer''" "JObj []" no_opts s] assms
    by simp_all
  ultimately show ?thesis by simp
qed

theorem addPlugin_installer_failure_witness:
  "getComponentInstance demo_env ''core.plugin-installer'' (JObj []) no_opts
       (construct demo_env (demo_config True) ''@lando/core:product'' None [])
     = (Inl (NotFound ''core.plugin-installer''),
        log (ResolveInstance (resolve_args ''core.plugin-installer'' (JObj []) no_opts
               (construct demo_env (demo_config True) ''@lando/core:product'' None [])))
          (construct demo_env (demo_config True) ''@lando/core:product'' None []))
   \<and> fst (addPlugin demo_env ''c'' None
            (construct demo_env (demo_config True) ''@lando/core:product'' None []))
       = Inl (NotFound ''core.plugin-installer'')
   \<and> world (snd (addPlugin demo_env ''c'' None
            (construct demo_env (demo_config True) ''@lando/core:product'' None []))) = []"
proof -
  let ?s = "construct demo_env (demo_config True) ''@lando/core:product'' None []"
  have co: "coherent ?s" by (rule coherent_construct)
  have w: "world ?s = []"
    by (simp add: construct_def Let_def init_def split_def getManifest_frame getPlugins_frame)
  have p: "plugins ?s = []"
    unfolding construct_def Let_def
    by (subst init_fields_miss) (simp_all add: cache_has_def)
  have "plain (manifest ?s) = composed []"
    using co p by (simp add: coherent_def)
  then have reg: "getRegistry ?s = None"
    by (simp add: getRegistry_def config_get_def config_tree_def composed_def Config_new_def)
  have n: "effective_scope demo_env
      (resolve_args ''core.plugin-installer'' (JObj []) no_opts ?s) = None"
    by (simp add: no_opts_def)
  have r: "getComponentInstance demo_env ''core.plugin-installer'' (JObj []) no_opts ?s
     = (Inl (NotFound ''core.plugin-installer''),
        log (ResolveInstance (resolve_args ''core.plugin-installer'' (JObj []) no_opts ?s)) ?s)"
    by (simp add: getComponentInstance_no_scope [OF n] reg)
  note t = addPlugin_installer_failure [OF r, of "''c''" None]
  have 1: "fst (addPlugin demo_env ''c'' None ?s) = Inl (NotFound ''core.plugin-installer'')"
    using t [THEN conjunct1] by simp
  have 2: "world (snd (addPlugin demo_env ''c'' None ?s)) = []"
    using t [THEN conjunct1] w by simp
  from r 1 2 show ?thesis by (intro conjI)
qed

text \<open>
  The options given to \<open>getPlugins\<close> override the defaults of discovery (release
  channel, config, load options, the type \<open>global\<close>) key by key, and the defaults
  stand for every key the caller does not give.
\<close>

theorem getPlugins_options_override:
  assumes "distinct (map fst options)"
  shows "map_of (discovery_options s options) k =
           (case map_of options k of
              Some v \<Rightarrow> Some v
            | None \<Rightarrow>
                map_of [(''channel'', cfg_get (config s) ''core.release-channel''),
                        (''config'', cfg_all (config s)),
                        (''loadOpts'', JArr [this_marker]),
                        (''type'', JStr ''global'')] k)"
proof -
  from assms have "map_of (rev options) = map_of options"
    by (subst map_of_inject_set) (simp_all add: rev_map [symmetric])
  then show ?thesis
    by (simp add: discovery_options_def map_of_spread map_add_def split: option.splits)
qed

theorem getPlugins_options_override_witness:
  "distinct (map fst [(''type'', JStr ''app''), (''extra'', JBool True)])
   \<and> map_of (discovery_options (demo_product True) [(''type'', JStr ''app''), (''extra'', JBool True)])
        ''type'' = Some (JStr ''app'')
   \<and> map_of (discovery_options (demo_product True) [(''type'', JStr ''app''), (''extra'', JBool True)])
        ''channel'' = Some (JStr ''stable'')
   \<and> map_of (discovery_options (demo_product True) []) ''type'' = Some (JStr ''global'')"
proof -
  have d: "distinct (map fst [(''type'', JStr ''app''), (''extra'', JBool True)])" by simp
  have e: "distinct (map fst ([] :: (string \<times> json) list))" by simp
  from d getPlugins_options_override [OF d, of "demo_product True" "''type''"]
    getPlugins_options_override [OF d, of "demo_product True" "''channel''"]
    getPlugins_options_override [OF e, of "demo_product True" "''type''"]
  show ?thesis by (simp add: demo_product_fields)
qed

text \<open>
  The constructor, where no cache directory exists yet: discovery runs exactly once, on
  the world as it is, \<open>plugins\<close> are its enabled collection, \<open>manifest\<close> is the one
  composed from them, and \<open>hooks\<close> is left unassigned.
\<close>

theorem construct_first_pass:
  "discoveries (trace (construct E cfg dbg None w)) = 1
   \<and> plugins (construct E cfg dbg None w)
       = enabled (get_plugins E (cfg_get (config (construct E cfg dbg None w)) ''plugin.dirs'')
                   (discovery_options (construct E cfg dbg None w) []) w)
   \<and> plain (manifest (construct E cfg dbg None w)) = composed (plugins (construct E cfg dbg None w))
   \<and> world (construct E cfg dbg None w) = w
   \<and> hooks (construct E cfg dbg None w) = None"
proof -
  have 1: "discoveries (trace (construct E cfg dbg None w)) = 1"
    unfolding construct_def Let_def
    by (subst init_fields_miss) (simp_all add: cache_has_def reint_events_def)
  have c: "config (construct E cfg dbg None w)
      = (let ident = (if cf_ident cfg = [] then ''lando'' else cf_ident cfg);
             c1 = cfg_defaults cfg (product_defaults E ident)
         in if \<not> truthy (cfg_get c1 (cf_managed c1 @ '':system.instance''))
            then cfg_set c1 ''system.instance'' (JStr (generate_id E w)) else c1)"
    unfolding construct_def Let_def
    by (subst init_fields_miss) (simp_all add: cache_has_def)
  have 2: "plugins (construct E cfg dbg None w)
       = enabled (get_plugins E (cfg_get (config (construct E cfg dbg None w)) ''plugin.dirs'')
                   (discovery_options (construct E cfg dbg None w) []) w)"
    unfolding discovery_options_def c
    unfolding construct_def Let_def
    by (subst init_fields_miss)
       (simp_all add: cache_has_def discovered_def discovery_options_def)
  have 3: "plain (manifest (construct E cfg dbg None w)) = composed (plugins (construct E cfg dbg None w))"
    using coherent_construct [of E cfg dbg w] by (simp add: coherent_def)
  have 4: "world (construct E cfg dbg None w) = w"
    by (simp add: construct_def Let_def init_def split_def getManifest_frame getPlugins_frame)
  from 1 2 3 4 construct_hooks [of E cfg dbg None w] show ?thesis by (intro conjI)
qed

end
